theory Spec2Isabelle
  imports Main "HOL-Library.Word"
begin

unbundle bit_operations_syntax

section \<open>Bytes, words and the host's byte order\<close>

text \<open>
  The sources read and write 16-bit fields through casts of a byte pointer
  (\<^verbatim>\<open>*p++\<close> over \<^verbatim>\<open>const uint16_t*\<close> in \<^verbatim>\<open>checksum16\<close>, the packed
  \<^verbatim>\<open>IcmpHeader\<close> laid over \<^verbatim>\<open>packet.data()\<close>), so what they compute depends on the
  byte order of the host. A buffer is a list of bytes in address order, and the byte
  order of the host is a parameter of every function that looks at memory.
\<close>

type_synonym u8 = "8 word"
type_synonym u16 = "16 word"
type_synonym u32 = "32 word"
type_synonym u64 = "64 word"

datatype endian = LittleEndian | BigEndian

text \<open>\<^verbatim>\<open>*(const uint16_t* )p\<close> where \<open>b0\<close> is the byte at \<open>p\<close> and \<open>b1\<close> the byte at \<open>p + 1\<close>.\<close>

fun load16 :: "endian \<Rightarrow> u8 \<Rightarrow> u8 \<Rightarrow> u16" where
  "load16 LittleEndian b0 b1 = ucast b0 OR push_bit 8 (ucast b1)"
| "load16 BigEndian b0 b1 = push_bit 8 (ucast b0) OR ucast b1"

text \<open>The two bytes a 16-bit store leaves in memory, in address order.\<close>

fun store16 :: "endian \<Rightarrow> u16 \<Rightarrow> u8 list" where
  "store16 LittleEndian v = [ucast v, ucast (drop_bit 8 v)]"
| "store16 BigEndian v = [ucast (drop_bit 8 v), ucast v]"

text \<open>\<^verbatim>\<open>htons\<close>: the identity on a big-endian host, a byte swap on a little-endian one.\<close>

fun htons :: "endian \<Rightarrow> u16 \<Rightarrow> u16" where
  "htons BigEndian v = v"
| "htons LittleEndian v = push_bit 8 v OR drop_bit 8 v"

section \<open>util.cpp: the Internet checksum\<close>

text \<open>
  \<^verbatim>\<open>
  uint16_t checksum16(const void* data, size_t len) {
      uint32_t sum = 0;
      const uint16_t* p = static_cast<const uint16_t*>(data);
      while (len > 1) { sum += *p++; len -= 2; }
      if (len) { sum += *reinterpret_cast<const uint8_t*>(p); }
      while (sum >> 16) { sum = (sum & 0xFFFF) + (sum >> 16); }
      return static_cast<uint16_t>(~sum);
  }
  \<close>
  \<open>sum_words\<close> is the first loop together with the odd-byte step: the accumulator is
  a \<^verbatim>\<open>uint32_t\<close> and wraps. \<open>fold_carries\<close> is the second loop.
\<close>

fun sum_words :: "endian \<Rightarrow> u8 list \<Rightarrow> u32 \<Rightarrow> u32" where
  "sum_words e (b0 # b1 # bs) acc = sum_words e bs (acc + ucast (load16 e b0 b1))"
| "sum_words e [b] acc = acc + ucast b"
| "sum_words e [] acc = acc"

function fold_carries :: "u32 \<Rightarrow> u32" where
  "fold_carries s =
     (if drop_bit 16 s \<noteq> 0 then fold_carries ((s AND 0xFFFF) + drop_bit 16 s) else s)"
  by pat_completeness auto
termination
proof (relation "measure unat")
  fix s :: u32
  assume nz: "drop_bit 16 s \<noteq> 0"
  have lo: "unat (s AND 0xFFFF) = unat s mod 65536"
  proof -
    have "(0xFFFF::u32) = mask 16" by (simp add: mask_eq_exp_minus_1)
    moreover have "unat (s AND mask 16) = unat s mod 2 ^ 16"
      by (simp only: unat_mod flip: take_bit_eq_mask) (simp add: take_bit_eq_mod unat_mod)
    ultimately show ?thesis by simp
  qed
  have hi: "unat (drop_bit 16 s) = unat s div 65536"
    by (simp add: drop_bit_eq_div unat_div)
  have "unat (drop_bit 16 s) \<noteq> 0" using nz by (simp add: unsigned_eq_0_iff)
  then have "unat s div 65536 \<noteq> 0" by (simp add: hi)
  moreover have "unat s = 65536 * (unat s div 65536) + unat s mod 65536" by simp
  ultimately have "unat s mod 65536 + unat s div 65536 < unat s" by linarith
  moreover have "unat ((s AND 0xFFFF) + drop_bit 16 s) \<le> unat (s AND 0xFFFF) + unat (drop_bit 16 s)"
    by (simp add: unat_word_ariths)
  ultimately show "((s AND 0xFFFF) + drop_bit 16 s, s) \<in> measure unat"
    by (simp add: lo hi)
qed simp

declare fold_carries.simps [simp del]

text \<open>The buffer summed as 16-bit words with the carries folded: the value the code inverts.\<close>

definition ones_sum :: "endian \<Rightarrow> u8 list \<Rightarrow> u32" where
  "ones_sum e data = fold_carries (sum_words e data 0)"

definition checksum16 :: "endian \<Rightarrow> u8 list \<Rightarrow> u16" where
  "checksum16 e data = ucast (NOT (ones_sum e data))"

text \<open>
  \<^verbatim>\<open>reinterpret_cast<IcmpHeader*>(packet.data())->checksum = c\<close>: a 16-bit store at
  offset 2 of a buffer that holds the field (four bytes or more; the packets of the
  engine have sixteen).
\<close>

definition set_checksum :: "endian \<Rightarrow> u16 \<Rightarrow> u8 list \<Rightarrow> u8 list" where
  "set_checksum e c pkt = take 2 pkt @ store16 e c @ drop 4 pkt"

section \<open>ping.hpp: the result of a probe\<close>

record PingProbeResult =
  success :: bool
  rtt_ms :: int
  ttl :: int
  if_name :: string
  error_msg :: string

text \<open>\<^verbatim>\<open>PingProbeResult{}\<close>: the default member initialisers of the struct.\<close>

definition PingProbeResult_init :: PingProbeResult where
  "PingProbeResult_init =
     \<lparr>success = False, rtt_ms = - 1, ttl = - 1, if_name = [], error_msg = []\<rparr>"

section \<open>The promise and future of the standard library\<close>

text \<open>
  A \<^verbatim>\<open>std::promise<PingProbeResult>\<close> and the \<^verbatim>\<open>std::future\<close> obtained from it share
  one state. The promise sits in \<^verbatim>\<open>g_waiters\<close>, the future in the frame of the
  waiting \<^verbatim>\<open>ping_once_engine\<close>, so the shared states live in a store and both sides hold
  a reference. What the library throws is a value of \<open>exn\<close>.
\<close>

datatype future_errc =
  broken_promise | future_already_retrieved | promise_already_satisfied | no_state

datatype exn = future_error future_errc | length_error | system_error | out_of_bounds_write

datatype shared_content = NotReady | Value PingProbeResult | Exception future_errc

record shared_state =
  content :: shared_content
  retrieved :: bool

type_synonym ref = nat
type_synonym store = "ref \<Rightarrow> shared_state"

text \<open>\<^verbatim>\<open>promise::get_future()\<close>: the future can be taken once.\<close>

definition get_future :: "ref \<Rightarrow> store \<Rightarrow> exn + store" where
  "get_future r h =
     (if retrieved (h r) then Inl (future_error future_already_retrieved)
      else Inr (h(r := (h r)\<lparr>retrieved := True\<rparr>)))"

text \<open>\<^verbatim>\<open>promise::set_value(v)\<close>: the state can be made ready once.\<close>

definition set_value :: "ref \<Rightarrow> PingProbeResult \<Rightarrow> store \<Rightarrow> exn + store" where
  "set_value r v h =
     (if content (h r) = NotReady then Inr (h(r := (h r)\<lparr>content := Value v\<rparr>))
      else Inl (future_error promise_already_satisfied))"

text \<open>\<^verbatim>\<open>try { p.set_value(v); } catch (...) {}\<close>\<close>

definition try_set_value :: "ref \<Rightarrow> PingProbeResult \<Rightarrow> store \<Rightarrow> store" where
  "try_set_value r v h = (case set_value r v h of Inl _ \<Rightarrow> h | Inr h' \<Rightarrow> h')"

text \<open>
  The destructor of a promise that owns a state: a state that is not ready receives the
  exception \<^verbatim>\<open>broken_promise\<close>, and becomes ready with it.
\<close>

definition destroy_promise :: "ref \<Rightarrow> store \<Rightarrow> store" where
  "destroy_promise r h =
     (if content (h r) = NotReady then h(r := (h r)\<lparr>content := Exception broken_promise\<rparr>)
      else h)"

section \<open>engine.cpp and engine\_linux.cpp: the state of the engine\<close>

datatype os = Windows | Linux

datatype Key = Key (key_id: u16) (key_seq: u16)

type_synonym in_addr = u32

text \<open>A socket, as far as the engine uses one: its \<^verbatim>\<open>IP_TTL\<close> option.\<close>

record socket =
  ip_ttl :: int

text \<open>What \<^verbatim>\<open>sendto\<close> put on the wire through \<^verbatim>\<open>g_sock\<close>.\<close>

record datagram =
  dg_dst :: in_addr
  dg_ttl :: int
  dg_data :: "u8 list"

text \<open>
  The globals of the engine. \<^verbatim>\<open>g_waiters\<close> is an \<^verbatim>\<open>unordered_map\<close> from keys to
  promises: a list of pairs of a key and the reference to the promise's state, which
  \<open>umap_emplace\<close> keeps free of duplicate keys. \<open>g_sock = None\<close> is
  \<^verbatim>\<open>INVALID_SOCKET\<close> on Windows and \<^verbatim>\<open>-1\<close> on Linux. \<open>promises\<close> is the store of the
  shared states, \<open>next_ref\<close> the next unused reference, and \<open>sent\<close> the datagrams
  sent through \<^verbatim>\<open>g_sock\<close>, oldest first.
\<close>

record engine =
  g_sock :: "socket option"
  g_running :: bool
  g_waiters :: "(Key \<times> ref) list"
  g_seq :: u16
  promises :: store
  next_ref :: ref
  sent :: "datagram list"

definition engine_initial :: engine where
  "engine_initial =
     \<lparr>g_sock = None, g_running = False, g_waiters = [], g_seq = 1,
      promises = (\<lambda>_. \<lparr>content = NotReady, retrieved = False\<rparr>), next_ref = 0, sent = []\<rparr>"

text \<open>
  \<^verbatim>\<open>g_waiters.emplace(k, std::move(pr))\<close> inserts nothing when the key is there already;
  \<^verbatim>\<open>g_waiters.find(k)\<close> is \<open>map_of\<close>; \<^verbatim>\<open>g_waiters.erase(k)\<close> removes the entry of the key.
\<close>

definition umap_emplace :: "'k \<Rightarrow> 'v \<Rightarrow> ('k \<times> 'v) list \<Rightarrow> ('k \<times> 'v) list" where
  "umap_emplace k v m = (if map_of m k = None then (k, v) # m else m)"

definition umap_erase :: "'k \<Rightarrow> ('k \<times> 'v) list \<Rightarrow> ('k \<times> 'v) list" where
  "umap_erase k m = filter (\<lambda>kv. fst kv \<noteq> k) m"

text \<open>
  \<^verbatim>\<open>{ std::lock_guard<std::mutex> lk(g_mtx); g_waiters.erase(k); }\<close>: the promise stored
  under the key is destroyed with its entry.
\<close>

definition erase_waiter :: "Key \<Rightarrow> engine \<Rightarrow> engine" where
  "erase_waiter k st =
     (case map_of (g_waiters st) k of
        None \<Rightarrow> st
      | Some r \<Rightarrow> st\<lparr>g_waiters := umap_erase k (g_waiters st),
                     promises := destroy_promise r (promises st)\<rparr>)"

subsection \<open>The listener\<close>

text \<open>
  The block of \<^verbatim>\<open>listener_loop\<close> that resolves a waiter, the same on both systems:
  \<^verbatim>\<open>
  { std::lock_guard<std::mutex> lk(g_mtx);
    auto it = g_waiters.find(k);
    if (it != g_waiters.end()) {
        std::promise<PingProbeResult> tmp = std::move(it->second);
        g_waiters.erase(it);
        try { tmp.set_value(probe); } catch (...) {}
    } }
  \<close>
  The block returns nothing; the boolean of the model is its test \<^verbatim>\<open>it != g_waiters.end()\<close>.
  \<^verbatim>\<open>tmp\<close> dies at the end of the inner block.
\<close>

definition resolve_waiter :: "Key \<Rightarrow> PingProbeResult \<Rightarrow> engine \<Rightarrow> bool \<times> engine" where
  "resolve_waiter k probe st =
     (case map_of (g_waiters st) k of
        None \<Rightarrow> (False, st)
      | Some r \<Rightarrow>
          (True, st\<lparr>g_waiters := umap_erase k (g_waiters st),
                    promises := destroy_promise r (try_set_value r probe (promises st))\<rparr>))"

text \<open>
  One Echo Reply with key \<open>k\<close> seen by the listener. \<open>ttl_val\<close> is the TTL read from the
  ancillary data on Linux (\<open>-1\<close> without it) and the TTL byte of the IP header on
  Windows, which is never negative.
\<close>

definition listener_dispatch :: "Key \<Rightarrow> int \<Rightarrow> engine \<Rightarrow> engine" where
  "listener_dispatch k ttl_val st =
     snd (resolve_waiter k
            (PingProbeResult_init\<lparr>success := True,
                                   ttl := (if 0 \<le> ttl_val then ttl_val else - 1),
                                   rtt_ms := 0\<rparr>) st)"

subsection \<open>init\_engine and shutdown\_engine\<close>

text \<open>
  What the system answers to \<^verbatim>\<open>init_engine\<close>: whether the capture could be set up
  (Windows: a device found, opened, the filter applied), whether Winsock started, the
  socket \<^verbatim>\<open>socket()\<close> returned, and whether the listener thread could be started.
\<close>

record init_env =
  capture_ok :: bool
  wsa_ok :: bool
  socket_result :: "socket option"
  thread_ok :: bool

text \<open>
  On Linux a failure to start the thread is caught and undone; on Windows the
  constructor of \<^verbatim>\<open>std::thread\<close> is not guarded. Linux sets \<^verbatim>\<open>IP_TTL\<close> to 64 on the new
  socket, a value every system accepts.
\<close>

definition init_engine :: "os \<Rightarrow> init_env \<Rightarrow> engine \<Rightarrow> (exn + bool) \<times> engine" where
  "init_engine sys ie st =
     (if g_running st then (Inr True, st)
      else case sys of
        Windows \<Rightarrow>
          (if \<not> capture_ok ie then (Inr False, st)
           else if \<not> wsa_ok ie then (Inr False, st)
           else case socket_result ie of
             None \<Rightarrow> (Inr False, st\<lparr>g_sock := None\<rparr>)
           | Some s \<Rightarrow>
               (if thread_ok ie then Inr True else Inl system_error,
                st\<lparr>g_sock := Some s, g_running := True\<rparr>))
      | Linux \<Rightarrow>
          (case socket_result ie of
             None \<Rightarrow> (Inr False, st)
           | Some s \<Rightarrow>
               (if thread_ok ie
                then (Inr True, st\<lparr>g_sock := Some (s\<lparr>ip_ttl := 64\<rparr>), g_running := True\<rparr>)
                else (Inr False, st\<lparr>g_running := False, g_sock := None\<rparr>))))"

text \<open>
  The loops of \<^verbatim>\<open>shutdown_engine\<close> over \<^verbatim>\<open>g_waiters\<close>.
  Linux: \<^verbatim>\<open>try { kv.second.set_value(PingProbeResult{}); } catch (...) {}\<close>.
  Windows:
  \<^verbatim>\<open>try { auto fut = kv.second.get_future();
        if (fut.valid()) kv.second.set_value(PingProbeResult{}); } catch (...) {}\<close>;
  a future that \<^verbatim>\<open>get_future\<close> returns is valid.
\<close>

fun drain_linux :: "(Key \<times> ref) list \<Rightarrow> store \<Rightarrow> store" where
  "drain_linux [] h = h"
| "drain_linux ((k, r) # kvs) h = drain_linux kvs (try_set_value r PingProbeResult_init h)"

fun drain_windows :: "(Key \<times> ref) list \<Rightarrow> store \<Rightarrow> store" where
  "drain_windows [] h = h"
| "drain_windows ((k, r) # kvs) h =
     drain_windows kvs
       (case get_future r h of
          Inl _ \<Rightarrow> h
        | Inr h1 \<Rightarrow> try_set_value r PingProbeResult_init h1)"

text \<open>\<^verbatim>\<open>g_waiters.clear()\<close> destroys every promise of the map.\<close>

fun clear_waiters :: "(Key \<times> ref) list \<Rightarrow> store \<Rightarrow> store" where
  "clear_waiters [] h = h"
| "clear_waiters ((k, r) # kvs) h = clear_waiters kvs (destroy_promise r h)"

text \<open>
  \<^verbatim>\<open>shutdown_engine\<close> in the order of the source: \<^verbatim>\<open>g_running = false\<close> (and the
  listener is woken and joined); the socket is closed and \<^verbatim>\<open>g_sock\<close> invalidated; then,
  under \<^verbatim>\<open>g_mtx\<close>, the loop over the waiters and \<^verbatim>\<open>clear()\<close>. The first two steps do
  not hold the mutex, and other threads can act between the three.
\<close>

definition shutdown_signal :: "engine \<Rightarrow> engine" where
  "shutdown_signal st = st\<lparr>g_running := False\<rparr>"

definition shutdown_close :: "engine \<Rightarrow> engine" where
  "shutdown_close st = st\<lparr>g_sock := None\<rparr>"

definition shutdown_drain :: "os \<Rightarrow> engine \<Rightarrow> engine" where
  "shutdown_drain sys st =
     st\<lparr>promises :=
          clear_waiters (g_waiters st)
            ((case sys of Linux \<Rightarrow> drain_linux | Windows \<Rightarrow> drain_windows)
               (g_waiters st) (promises st)),
        g_waiters := []\<rparr>"

definition shutdown_engine :: "os \<Rightarrow> engine \<Rightarrow> engine" where
  "shutdown_engine sys st = shutdown_drain sys (shutdown_close (shutdown_signal st))"

definition engine_available :: "engine \<Rightarrow> bool" where
  "engine_available st = g_running st"

subsection \<open>The Echo Request\<close>

text \<open>
  \<^verbatim>\<open>std::memcpy(..., &ticks, sizeof(ticks))\<close>: the eight bytes of a \<^verbatim>\<open>uint64_t\<close> in
  address order.
\<close>

fun store64 :: "endian \<Rightarrow> u64 \<Rightarrow> u8 list" where
  "store64 LittleEndian v = map (\<lambda>i. ucast (drop_bit (8 * i) v)) [0, 1, 2, 3, 4, 5, 6, 7]"
| "store64 BigEndian v = map (\<lambda>i. ucast (drop_bit (8 * i) v)) [7, 6, 5, 4, 3, 2, 1, 0]"

text \<open>
  The buffer both engines send. Windows copies an \<^verbatim>\<open>IcmpHeader\<close> (type 8, code 0,
  checksum 0, \<^verbatim>\<open>htons(id)\<close>, \<^verbatim>\<open>htons(seq)\<close>) and then the payload vector, which is
  \<^verbatim>\<open>ticks\<close> followed by \<^verbatim>\<open>payload_size\<close> zero bytes; Linux writes the same fields into
  a zeroed vector of \<^verbatim>\<open>sizeof(icmphdr) + sizeof(uint64_t) + payload_size\<close> bytes. The
  checksum is stored last, computed over the whole buffer with its field zero.
\<close>

definition echo_request :: "endian \<Rightarrow> u16 \<Rightarrow> u16 \<Rightarrow> u64 \<Rightarrow> nat \<Rightarrow> u8 list" where
  "echo_request e ident sq tk n =
     (let packet = [8, 0] @ [0, 0] @ store16 e (htons e ident) @ store16 e (htons e sq)
                     @ store64 e tk @ replicate n 0
      in set_checksum e (checksum16 e packet) packet)"

text \<open>
  The size of the vector is computed in \<^verbatim>\<open>size_t\<close> from the \<^verbatim>\<open>int payload_size\<close>:
  \<^verbatim>\<open>sizeof(ticks) + payload_size\<close> for the payload vector of Windows,
  \<^verbatim>\<open>sizeof(icmphdr) + sizeof(uint64_t) + payload_size\<close> for the packet of Linux. A
  negative sum wraps to a size above \<^verbatim>\<open>max_size()\<close> and the constructor throws
  \<^verbatim>\<open>std::length_error\<close>. A negative \<open>payload_size\<close> above that gives a vector too short
  for the writes that follow (undefined behaviour in C++; the model stops there with
  \<open>out_of_bounds_write\<close>, which is no C++ exception). The allocation itself is taken to succeed.
\<close>

definition build_packet :: "os \<Rightarrow> endian \<Rightarrow> u16 \<Rightarrow> u16 \<Rightarrow> u64 \<Rightarrow> int \<Rightarrow> exn + u8 list" where
  "build_packet sys e ident sq tk payload_size =
     (if (case sys of Windows \<Rightarrow> 8 | Linux \<Rightarrow> 16) + payload_size < 0 then Inl length_error
      else if payload_size < 0 then Inl out_of_bounds_write
      else Inr (echo_request e ident sq tk (nat payload_size)))"

subsection \<open>ping\_once\_engine\<close>

text \<open>
  What \<^verbatim>\<open>recvmsg\<close> returns to the receive loop of the local path of Linux: an error
  (with whether \<^verbatim>\<open>errno\<close> is one of \<^verbatim>\<open>EAGAIN\<close>, \<^verbatim>\<open>EWOULDBLOCK\<close>, \<^verbatim>\<open>EINTR\<close>), or a
  message: its length, its ICMP type, its identifier and sequence number after
  \<^verbatim>\<open>ntohs\<close>, and the TTL of the ancillary data (\<open>-1\<close> without it).
\<close>

datatype recv_result = recv_error bool | recv_msg nat u8 u16 u16 int

text \<open>
  What follows the results of \<^verbatim>\<open>recvmsg\<close> that are listed: nothing arrives at the socket
  any more, or datagrams that the receive loop skips keep arriving without end.
\<close>

datatype recv_rest = Quiet | Endless

text \<open>
  Everything outside the engine that one call of \<^verbatim>\<open>ping_once_engine\<close> depends on: the
  byte order of the host, the address parser, the test for a local address, the
  answers of the system on the local path (among them what it makes of a receive
  timeout with a negative member, and what arrives at the socket), the process id, the
  clock, whether \<^verbatim>\<open>emplace\<close> builds its node before it looks the key up (the standard
  allows both; it decides what becomes of a promise that is not inserted), whether the
  system accepts the \<^verbatim>\<open>setsockopt\<close> of the TTL, whether \<^verbatim>\<open>sendto\<close> succeeds, and the
  milliseconds between \<^verbatim>\<open>t_send\<close> and \<^verbatim>\<open>t_recv\<close>.
\<close>

record probe_env =
  host :: endian
  inet_pton :: "string \<Rightarrow> in_addr option"
  is_local_ipv4_addr :: "in_addr \<Rightarrow> bool"
  icmp_ping_local :: "(int \<times> int) option"
  local_socket_ok :: bool
  local_connect_ok :: bool
  local_send_ok :: bool
  negative_timeval_times_out :: bool
  local_recv :: "recv_result list"
  local_recv_rest :: recv_rest
  pid :: u32
  ticks :: u64
  emplace_constructs :: bool
  setsockopt_ok :: bool
  sendto_ok :: bool
  elapsed_ms :: int

text \<open>The fast path of Windows: \<^verbatim>\<open>icmp_ping_local\<close> returns true with an RTT and a TTL, or false.\<close>

definition local_ping_windows :: "probe_env \<Rightarrow> PingProbeResult \<Rightarrow> PingProbeResult" where
  "local_ping_windows env probe =
     (case icmp_ping_local env of
        Some (rtt, ttl_local) \<Rightarrow> probe\<lparr>success := True, rtt_ms := rtt, ttl := ttl_local\<rparr>
      | None \<Rightarrow> probe\<lparr>error_msg := ''Local ICMP failed''\<rparr>)"

text \<open>
  The receive timeout of the socket of the fast path of Linux:
  \<^verbatim>\<open>
  timeval tv{};
  tv.tv_sec  = timeout_ms / 1000;
  tv.tv_usec = (timeout_ms % 1000) * 1000;
  ::setsockopt(s, SOL_SOCKET, SO_RCVTIMEO, &tv, sizeof(tv));
  \<close>
  The division and the remainder of C++ truncate toward zero.
\<close>

definition rcv_timeval :: "int \<Rightarrow> int \<times> int" where
  "rcv_timeval timeout_ms =
     (sgn timeout_ms * (\<bar>timeout_ms\<bar> div 1000),
      sgn timeout_ms * (\<bar>timeout_ms\<bar> mod 1000) * 1000)"

text \<open>
  Whether a \<^verbatim>\<open>recvmsg\<close> on that socket gives up (with \<^verbatim>\<open>EAGAIN\<close>) when nothing
  arrives. A new socket has no receive timeout, a \<^verbatim>\<open>timeval\<close> of zero asks for none,
  and \<^verbatim>\<open>recvmsg\<close> then waits until a datagram or an error arrives. A positive
  \<^verbatim>\<open>timeval\<close> is a timeout. The result of \<^verbatim>\<open>setsockopt\<close> is not looked at, and what
  a \<^verbatim>\<open>timeval\<close> with a negative member does is an answer of the system: refused, it
  leaves the socket without a timeout; taken as "do not wait", it makes \<^verbatim>\<open>recvmsg\<close>
  give up at once.
\<close>

definition so_rcvtimeo :: "probe_env \<Rightarrow> int \<Rightarrow> bool" where
  "so_rcvtimeo env timeout_ms =
     (case rcv_timeval timeout_ms of
        (tv_sec, tv_usec) \<Rightarrow>
          if tv_sec < 0 \<or> tv_usec < 0 then negative_timeval_times_out env
          else tv_sec \<noteq> 0 \<or> tv_usec \<noteq> 0)"

text \<open>
  The receive loop of the fast path of Linux, \<^verbatim>\<open>while (true) { n = recvmsg(...); ... }\<close>.
  The list holds what \<^verbatim>\<open>recvmsg\<close> returns up to the result that ends the loop, or, when
  no result ends it, while datagrams arrive. After a list that does not end the loop:
  when nothing arrives any more and the socket has a receive timeout (\<open>tmo\<close>), the next
  \<^verbatim>\<open>recvmsg\<close> fails with \<^verbatim>\<open>EAGAIN\<close> and the loop ends with "Timeout"; without a
  timeout that \<^verbatim>\<open>recvmsg\<close> never returns; and when skipped datagrams keep arriving the
  loop never ends. A call that never returns has the result \<open>None\<close>.
\<close>

fun local_recv_loop ::
    "bool \<Rightarrow> recv_rest \<Rightarrow> u16 \<Rightarrow> u16 \<Rightarrow> int \<Rightarrow> recv_result list \<Rightarrow> PingProbeResult
      \<Rightarrow> PingProbeResult option" where
  "local_recv_loop tmo rest ident sq rtt [] probe =
     (if rest = Quiet \<and> tmo then Some (probe\<lparr>error_msg := ''Timeout''\<rparr>) else None)"
| "local_recv_loop tmo rest ident sq rtt (recv_error again # evs) probe =
     Some (probe\<lparr>error_msg := (if again then ''Timeout'' else ''recvmsg() failed'')\<rparr>)"
| "local_recv_loop tmo rest ident sq rtt (recv_msg n ty rid rseq ttl_val # evs) probe =
     (if n < 8 then local_recv_loop tmo rest ident sq rtt evs probe
      else if ty \<noteq> 0 then local_recv_loop tmo rest ident sq rtt evs probe
      else if rid \<noteq> ident \<or> rseq \<noteq> sq then local_recv_loop tmo rest ident sq rtt evs probe
      else Some (probe\<lparr>rtt_ms := rtt, ttl := (if 0 \<le> ttl_val then ttl_val else - 1),
                       success := True\<rparr>))"

text \<open>The fast path of Linux. \<open>None\<close>: the call never returns.\<close>

definition local_ping_linux ::
    "probe_env \<Rightarrow> int \<Rightarrow> int \<Rightarrow> engine \<Rightarrow> (exn + PingProbeResult) option \<times> engine" where
  "local_ping_linux env timeout_ms payload_size st =
     (let probe = PingProbeResult_init in
      if \<not> local_socket_ok env
      then (Some (Inr (probe\<lparr>error_msg := ''socket() failed''\<rparr>)), st)
      else if \<not> local_connect_ok env
      then (Some (Inr (probe\<lparr>error_msg := ''connect() failed''\<rparr>)), st)
      else
        let ident = ucast (pid env AND 0xFFFF);
            sq = g_seq st;
            st1 = st\<lparr>g_seq := sq + 1\<rparr>
        in case build_packet Linux (host env) ident sq (ticks env) payload_size of
             Inl x \<Rightarrow> (Some (Inl x), st1)
           | Inr packet \<Rightarrow>
               if \<not> local_send_ok env
               then (Some (Inr (probe\<lparr>error_msg := ''send() failed''\<rparr>)), st1)
               else (map_option Inr
                       (local_recv_loop (so_rcvtimeo env timeout_ms) (local_recv_rest env) ident sq
                          (elapsed_ms env) (local_recv env) probe),
                     st1))"

definition sendto_failed :: "os \<Rightarrow> string" where
  "sendto_failed sys = (case sys of Windows \<Rightarrow> ''sendto failed'' | Linux \<Rightarrow> ''sendto() failed'')"

text \<open>
  \<^verbatim>\<open>ping_once_engine\<close> up to the wait. It ends with a result (or an exception), or
  with the probe sent and its caller about to block on the future of state \<open>r\<close>,
  registered under key \<open>k\<close>, or (\<open>Blocked\<close>) with its caller in the receive loop of
  the fast path of Linux for ever.

  \<^verbatim>\<open>std::promise<PingProbeResult> pr; auto fut = pr.get_future();\<close> makes a new state
  whose future is taken. \<^verbatim>\<open>g_waiters.emplace(k, std::move(pr))\<close>: the result of
  \<^verbatim>\<open>emplace\<close> is not looked at. When the key is there already nothing is inserted, and a
  node built first is destroyed with the promise moved into it. The result of
  \<^verbatim>\<open>setsockopt\<close> is ignored as well: a value the system refuses leaves the option as
  it was.
\<close>

datatype issued = Done "exn + PingProbeResult" | Waiting Key ref | Blocked

text \<open>\<^verbatim>\<open>Key k{ id, seq }\<close> with the low 16 bits of the process id and the value of \<^verbatim>\<open>g_seq\<close>.\<close>

definition probe_key :: "probe_env \<Rightarrow> engine \<Rightarrow> Key" where
  "probe_key env st = Key (ucast (pid env AND 0xFFFF)) (g_seq st)"

text \<open>The new promise with its future taken, and the \<^verbatim>\<open>emplace\<close> under \<^verbatim>\<open>g_mtx\<close>.\<close>

definition register_waiter :: "probe_env \<Rightarrow> Key \<Rightarrow> engine \<Rightarrow> engine" where
  "register_waiter env k st =
     (let r = next_ref st;
          h1 = (promises st)(r := \<lparr>content = NotReady, retrieved = True\<rparr>);
          h2 = (if map_of (g_waiters st) k \<noteq> None \<and> emplace_constructs env
                then destroy_promise r h1 else h1)
      in st\<lparr>next_ref := Suc r, promises := h2,
            g_waiters := umap_emplace k r (g_waiters st)\<rparr>)"

text \<open>\<^verbatim>\<open>if (ttl > 0) setsockopt(g_sock, IPPROTO_IP, IP_TTL, &ttl, sizeof(ttl));\<close>\<close>

definition set_ip_ttl :: "probe_env \<Rightarrow> int \<Rightarrow> engine \<Rightarrow> engine" where
  "set_ip_ttl env ttl_opt st =
     (if 0 < ttl_opt \<and> setsockopt_ok env
      then st\<lparr>g_sock := map_option (\<lambda>s. s\<lparr>ip_ttl := ttl_opt\<rparr>) (g_sock st)\<rparr>
      else st)"

text \<open>A successful \<^verbatim>\<open>sendto(g_sock, ...)\<close>: the datagram leaves with the TTL of the socket.\<close>

definition sendto :: "in_addr \<Rightarrow> u8 list \<Rightarrow> engine \<Rightarrow> engine" where
  "sendto dst packet st =
     (case g_sock st of
        None \<Rightarrow> st
      | Some s \<Rightarrow> st\<lparr>sent := sent st @ [\<lparr>dg_dst = dst, dg_ttl = ip_ttl s, dg_data = packet\<rparr>]\<rparr>)"

definition ping_once_engine_issue ::
    "os \<Rightarrow> probe_env \<Rightarrow> string \<Rightarrow> int \<Rightarrow> int \<Rightarrow> int \<Rightarrow> engine \<Rightarrow> issued \<times> engine" where
  "ping_once_engine_issue sys env ip timeout_ms payload_size ttl_opt st =
     (let probe = PingProbeResult_init in
      case inet_pton env ip of
        None \<Rightarrow> (Done (Inr (probe\<lparr>error_msg := ''Invalid IP''\<rparr>)), st)
      | Some dst \<Rightarrow>
          if is_local_ipv4_addr env dst then
            (case sys of
               Windows \<Rightarrow> (Done (Inr (local_ping_windows env probe)), st)
             | Linux \<Rightarrow>
                 (case fst (local_ping_linux env timeout_ms payload_size st) of
                    Some res \<Rightarrow> Done res
                  | None \<Rightarrow> Blocked,
                  snd (local_ping_linux env timeout_ms payload_size st)))
          else if g_sock st = None then
            (Done (Inr (probe\<lparr>error_msg := ''Engine socket not available''\<rparr>)), st)
          else
            let k = probe_key env st;
                st1 = register_waiter env k (st\<lparr>g_seq := g_seq st + 1\<rparr>)
            in case build_packet sys (host env) (key_id k) (key_seq k) (ticks env) payload_size of
                 Inl x \<Rightarrow> (Done (Inl x), st1)
               | Inr packet \<Rightarrow>
                   let st2 = set_ip_ttl env ttl_opt st1
                   in if \<not> sendto_ok env
                      then (Done (Inr (probe\<lparr>error_msg := sendto_failed sys\<rparr>)),
                            erase_waiter k st2)
                      else (Waiting k (next_ref st), sendto dst packet st2))"

text \<open>The state of the engine when the request is about to be sent.\<close>

definition prepared :: "probe_env \<Rightarrow> int \<Rightarrow> engine \<Rightarrow> engine" where
  "prepared env ttl_opt st =
     set_ip_ttl env ttl_opt
       (register_waiter env (probe_key env st) (st\<lparr>g_seq := g_seq st + 1\<rparr>))"

text \<open>
  The rest of \<^verbatim>\<open>ping_once_engine\<close>, from the moment \<^verbatim>\<open>fut.wait_for\<close> returns. It
  returns \<^verbatim>\<open>ready\<close> when the state is ready by then: \<^verbatim>\<open>fut.get()\<close> gives the value or
  throws the stored exception, and nothing catches it. Otherwise the deadline has
  passed: the entry is erased and the result is the timeout.
\<close>

definition ping_once_engine_await ::
    "probe_env \<Rightarrow> Key \<Rightarrow> ref \<Rightarrow> engine \<Rightarrow> (exn + PingProbeResult) \<times> engine" where
  "ping_once_engine_await env k r st =
     (case content (promises st r) of
        Value v \<Rightarrow> (Inr (v\<lparr>rtt_ms := elapsed_ms env\<rparr>), st)
      | Exception c \<Rightarrow> (Inl (future_error c), st)
      | NotReady \<Rightarrow> (Inr (PingProbeResult_init\<lparr>error_msg := ''Timeout''\<rparr>), erase_waiter k st))"

text \<open>
  The whole call. \<open>others\<close> is what the other threads (the listener, other probes,
  \<^verbatim>\<open>shutdown_engine\<close>) do to the engine while this caller is blocked in \<^verbatim>\<open>wait_for\<close>.
  Every block of the source that touches \<^verbatim>\<open>g_waiters\<close> holds \<^verbatim>\<open>g_mtx\<close>, so the steps of
  the threads are taken one after the other. The call returns a result or throws
  (\<open>Some\<close>), or it never returns (\<open>None\<close>). \<^verbatim>\<open>wait_for\<close> returns at its deadline at
  the latest, so the wait of the engine path always ends.
\<close>

definition ping_once_engine ::
    "os \<Rightarrow> probe_env \<Rightarrow> string \<Rightarrow> int \<Rightarrow> int \<Rightarrow> int \<Rightarrow> (engine \<Rightarrow> engine) \<Rightarrow> engine
      \<Rightarrow> (exn + PingProbeResult) option \<times> engine" where
  "ping_once_engine sys env ip timeout_ms payload_size ttl_opt others st =
     (case ping_once_engine_issue sys env ip timeout_ms payload_size ttl_opt st of
        (Done res, st1) \<Rightarrow> (Some res, st1)
      | (Blocked, st1) \<Rightarrow> (None, st1)
      | (Waiting k r, st1) \<Rightarrow> apfst Some (ping_once_engine_await env k r (others st1)))"

subsection \<open>The states an engine can be in\<close>

text \<open>
  The states reached from the initial values of the globals by the steps of the
  engine, in any order and with any answers of the system: a shutdown can be under way.
\<close>

inductive reachable :: "os \<Rightarrow> engine \<Rightarrow> bool" for sys :: os where
  reachable_initial: "reachable sys engine_initial"
| reachable_init: "reachable sys st \<Longrightarrow> reachable sys (snd (init_engine sys ie st))"
| reachable_signal: "reachable sys st \<Longrightarrow> reachable sys (shutdown_signal st)"
| reachable_close: "reachable sys st \<Longrightarrow> reachable sys (shutdown_close st)"
| reachable_drain: "reachable sys st \<Longrightarrow> reachable sys (shutdown_drain sys st)"
| reachable_issue:
    "reachable sys st \<Longrightarrow>
       reachable sys (snd (ping_once_engine_issue sys env ip timeout_ms payload_size ttl_opt st))"
| reachable_await: "reachable sys st \<Longrightarrow> reachable sys (snd (ping_once_engine_await env k r st))"
| reachable_listener: "reachable sys st \<Longrightarrow> reachable sys (listener_dispatch k ttl_val st)"

text \<open>The states between whole calls: no \<^verbatim>\<open>shutdown_engine\<close> is under way.\<close>

inductive settled :: "os \<Rightarrow> engine \<Rightarrow> bool" for sys :: os where
  settled_initial: "settled sys engine_initial"
| settled_init: "settled sys st \<Longrightarrow> settled sys (snd (init_engine sys ie st))"
| settled_shutdown: "settled sys st \<Longrightarrow> settled sys (shutdown_engine sys st)"
| settled_issue:
    "settled sys st \<Longrightarrow>
       settled sys (snd (ping_once_engine_issue sys env ip timeout_ms payload_size ttl_opt st))"
| settled_await: "settled sys st \<Longrightarrow> settled sys (snd (ping_once_engine_await env k r st))"
| settled_listener: "settled sys st \<Longrightarrow> settled sys (listener_dispatch k ttl_val st)"

subsection \<open>What holds in every state\<close>

text \<open>
  What holds of the table in every state of the engine: no key and no promise occurs
  twice, and every promise in the table has a state that is not ready and whose future
  was taken (by the \<^verbatim>\<open>ping_once_engine\<close> that registered it).
\<close>

definition table_ok :: "engine \<Rightarrow> bool" where
  "table_ok st \<longleftrightarrow>
     distinct (map fst (g_waiters st)) \<and> distinct (map snd (g_waiters st)) \<and>
     list_all (\<lambda>kv. snd kv < next_ref st \<and> content (promises st (snd kv)) = NotReady \<and>
                     retrieved (promises st (snd kv))) (g_waiters st)"

text \<open>Every value a promise was given carries no error message.\<close>

definition values_ok :: "store \<Rightarrow> bool" where
  "values_ok h \<longleftrightarrow> (\<forall>r v. content (h r) = Value v \<longrightarrow> error_msg v = [])"

definition engine_inv :: "engine \<Rightarrow> bool" where
  "engine_inv st \<longleftrightarrow> table_ok st \<and> values_ok (promises st)"

section \<open>A concrete engine\<close>

text \<open>
  Inputs on which the operations are run below: an environment in which \<open>8.8.8.8\<close>
  parses and is remote, \<open>127.0.0.1\<close> parses and is local, every system call succeeds
  and the process id is \<open>0x11234\<close>; and the engine right after a successful
  \<^verbatim>\<open>init_engine\<close>.
\<close>

definition example_env :: probe_env where
  "example_env =
     \<lparr>host = LittleEndian,
      inet_pton = (\<lambda>s. if s = ''8.8.8.8'' then Some 0x08080808
                        else if s = ''127.0.0.1'' then Some 0x7F000001 else None),
      is_local_ipv4_addr = (\<lambda>a. a = 0x7F000001),
      icmp_ping_local = Some (1, 128),
      local_socket_ok = True, local_connect_ok = True, local_send_ok = True,
      negative_timeval_times_out = False,
      local_recv = [recv_msg 16 0 0x1234 1 64], local_recv_rest = Quiet,
      pid = 0x11234, ticks = 0x0102030405060708,
      emplace_constructs = True, setsockopt_ok = True, sendto_ok = True, elapsed_ms = 7\<rparr>"

definition example_init :: init_env where
  "example_init =
     \<lparr>capture_ok = True, wsa_ok = True, socket_result = Some \<lparr>ip_ttl = 128\<rparr>, thread_ok = True\<rparr>"

definition example_engine :: "os \<Rightarrow> engine" where
  "example_engine sys = snd (init_engine sys example_init engine_initial)"

text \<open>The engine with one probe to \<open>8.8.8.8\<close> sent and waiting.\<close>

definition example_pending :: "os \<Rightarrow> engine" where
  "example_pending sys =
     snd (ping_once_engine_issue sys example_env ''8.8.8.8'' 1000 0 (- 1) (example_engine sys))"

text \<open>
  The engine with that probe still waiting and \<^verbatim>\<open>g_seq\<close> back at the sequence number
  of the probe: the 16-bit counter has wrapped.
\<close>

definition example_duplicate :: engine where
  "example_duplicate = (example_pending Linux)\<lparr>g_seq := 1\<rparr>"

section \<open>Running the model\<close>

text \<open>The equations that evaluate the operations on concrete inputs.\<close>

lemmas shutdown_defs =
  shutdown_engine_def shutdown_signal_def shutdown_close_def shutdown_drain_def

lemmas run_defs =
  example_env_def example_init_def example_engine_def example_pending_def engine_initial_def
  init_engine_def shutdown_defs ping_once_engine_def ping_once_engine_issue_def
  ping_once_engine_await_def probe_key_def register_waiter_def set_ip_ttl_def sendto_def
  erase_waiter_def resolve_waiter_def listener_dispatch_def umap_emplace_def umap_erase_def
  build_packet_def echo_request_def set_checksum_def checksum16_def ones_sum_def
  fold_carries.simps PingProbeResult_init_def try_set_value_def set_value_def get_future_def
  destroy_promise_def sendto_failed_def local_ping_windows_def local_ping_linux_def
  rcv_timeval_def so_rcvtimeo_def engine_available_def Let_def

section \<open>Properties of the checksum\<close>
















lemma ucast_ucast_byte: "(ucast (ucast (x :: u8) :: u16) :: u32) = ucast x"
  by (rule bit_word_eqI) (auto simp: bit_simps dest: bit_imp_le_length)

lemma drop_bit_ucast_byte: "drop_bit 8 (ucast (x :: u8) :: u16) = 0"
  by (rule bit_word_eqI) (auto simp: bit_simps dest: bit_imp_le_length)

lemma sum_words_even_append:
  "even (length xs) \<Longrightarrow> sum_words e (xs @ ys) acc = sum_words e ys (sum_words e xs acc)"
  by (induction xs arbitrary: acc rule: induct_list012) simp_all

lemma sum_words_odd_pad:
  "odd (length buf) \<Longrightarrow>
     sum_words LittleEndian (buf @ [0]) acc = sum_words LittleEndian buf acc"
proof (induction buf arbitrary: acc rule: induct_list012)
  case (2 x)
  then show ?case by (simp add: ucast_ucast_byte)
qed simp_all


text \<open>
  C6 (odd trailing byte), as the code has it. The loop sums the words as the host reads
  them and the last byte of a buffer of odd length is added as it is, on every host. On
  a little-endian host that is the 16-bit word made of that byte and a zero byte after
  it: \<open>checksum16\<close> of the buffer is \<open>checksum16\<close> of the same buffer extended by
  one zero byte, and the final word, taken in network byte order, has the trailing byte
  as its high-order byte and zero as its low-order byte.
\<close>

theorem checksum16_odd_length:
  assumes "odd (length buf)"
  shows "checksum16 LittleEndian buf = checksum16 LittleEndian (buf @ [0]) \<and>
         sum_words LittleEndian buf acc =
           sum_words LittleEndian (butlast buf) acc + ucast (load16 LittleEndian (last buf) 0) \<and>
         htons LittleEndian (load16 LittleEndian (last buf) 0) = push_bit 8 (ucast (last buf)) \<and>
         sum_words e buf acc = sum_words e (butlast buf) acc + ucast (last buf)"
proof -
  have ne: "buf \<noteq> []" using assms by auto
  have ev: "even (length (butlast buf))" using assms ne by simp
  have any: "sum_words h buf acc = sum_words h (butlast buf) acc + ucast (last buf)" for h
  proof -
    have "sum_words h (butlast buf @ [last buf]) acc =
            sum_words h (butlast buf) acc + ucast (last buf)"
      by (simp add: sum_words_even_append [OF ev])
    then show ?thesis using ne by simp
  qed
  have "htons LittleEndian (ucast (last buf)) = push_bit 8 (ucast (last buf))"
    by (simp add: drop_bit_ucast_byte)
  then show ?thesis
    using any [of LittleEndian] any [of e]
    by (simp add: checksum16_def ones_sum_def sum_words_odd_pad [OF assms] ucast_ucast_byte)
qed

theorem checksum16_odd_length_witness:
  "odd (length [8, 0, 0, 0, 1, 2, 3, 4, 5 :: u8]) \<and>
   checksum16 LittleEndian [8, 0, 0, 0, 1, 2, 3, 4, 5] =
     checksum16 LittleEndian ([8, 0, 0, 0, 1, 2, 3, 4, 5] @ [0])"
  using checksum16_odd_length [of "[8, 0, 0, 0, 1, 2, 3, 4, 5]"] by simp

text \<open>
  The claim fails for a host of the other byte order: the code adds the last byte as
  it is, and on a big-endian host that is the low-order byte of the final word. The
  buffer \<open>[0, 0, 1]\<close> sums to \<open>1\<close> there, and with a zero byte after it to \<open>0x100\<close>.
\<close>

theorem checksum16_odd_length_counterexample:
  "odd (length [0, 0, 1 :: u8]) \<and>
   checksum16 BigEndian [0, 0, 1] = 0xFFFE \<and>
   checksum16 BigEndian ([0, 0, 1] @ [0]) = 0xFEFF \<and>
   checksum16 BigEndian [0, 0, 1] \<noteq> checksum16 BigEndian ([0, 0, 1] @ [0]) \<and>
   sum_words BigEndian [0, 0, 1] 0 = 1 \<and>
   sum_words BigEndian ([0, 0, 1] @ [0]) 0 = 0x100 \<and>
   (ucast (load16 BigEndian 1 0) :: u32) = 0x100"
  by (simp add: checksum16_def ones_sum_def fold_carries.simps)

section \<open>Invariants of the engine\<close>

lemma table_okI:
  assumes "distinct (map fst (g_waiters st))" and "distinct (map snd (g_waiters st))"
    and "\<And>k r. (k, r) \<in> set (g_waiters st) \<Longrightarrow>
           r < next_ref st \<and> content (promises st r) = NotReady \<and> retrieved (promises st r)"
  shows "table_ok st"
  using assms by (auto simp: table_ok_def list_all_iff)

lemma table_okD:
  assumes "table_ok st" and "(k, r) \<in> set (g_waiters st)"
  shows "r < next_ref st" and "content (promises st r) = NotReady" and "retrieved (promises st r)"
  using assms by (auto simp: table_ok_def list_all_iff)

lemma table_ok_distinct:
  assumes "table_ok st"
  shows "distinct (map fst (g_waiters st))" and "distinct (map snd (g_waiters st))"
  using assms by (auto simp: table_ok_def)

lemma umap_erase_subset: "set (umap_erase k m) \<subseteq> set m"
  by (auto simp: umap_erase_def)

lemma umap_erase_distinct:
  "distinct (map f m) \<Longrightarrow> distinct (map f (umap_erase k m))"
  by (simp add: umap_erase_def distinct_map_filter)

lemma map_of_umap_erase: "map_of (umap_erase k m) k = None"
  by (induction m) (auto simp: umap_erase_def)

lemma umap_erase_other_ref:
  assumes "distinct (map snd m)" and "(k, r) \<in> set m" and "(k', r') \<in> set (umap_erase k m)"
  shows "r' \<noteq> r"
proof
  assume "r' = r"
  have in_m: "(k', r') \<in> set m" and ne: "k' \<noteq> k"
    using assms(3) by (auto simp: umap_erase_def)
  have "inj_on snd (set m)" using assms(1) by (simp add: distinct_map)
  then have "(k', r') = (k, r)"
    using in_m assms(2) \<open>r' = r\<close> inj_onD [of snd "set m" "(k', r')" "(k, r)"] by simp
  then show False using ne by simp
qed

lemma table_ok_remove:
  assumes ok: "table_ok st" and k: "map_of (g_waiters st) k = Some r"
    and h: "\<And>r'. r' \<noteq> r \<Longrightarrow> h r' = promises st r'"
  shows "table_ok (st\<lparr>g_waiters := umap_erase k (g_waiters st), promises := h\<rparr>)"
proof (rule table_okI)
  fix k' r'
  assume "(k', r') \<in> set (g_waiters (st\<lparr>g_waiters := umap_erase k (g_waiters st), promises := h\<rparr>))"
  then have e: "(k', r') \<in> set (umap_erase k (g_waiters st))" by simp
  then have m: "(k', r') \<in> set (g_waiters st)" using umap_erase_subset by fastforce
  have "r' \<noteq> r"
    using umap_erase_other_ref [OF table_ok_distinct(2) [OF ok] map_of_SomeD [OF k] e] .
  then show "r' < next_ref (st\<lparr>g_waiters := umap_erase k (g_waiters st), promises := h\<rparr>) \<and>
       content (promises (st\<lparr>g_waiters := umap_erase k (g_waiters st), promises := h\<rparr>) r') = NotReady \<and>
       retrieved (promises (st\<lparr>g_waiters := umap_erase k (g_waiters st), promises := h\<rparr>) r')"
    using table_okD [OF ok m] h by simp
qed (simp_all add: umap_erase_distinct table_ok_distinct [OF ok])

lemma destroy_promise_other: "r' \<noteq> r \<Longrightarrow> destroy_promise r h r' = h r'"
  by (simp add: destroy_promise_def)

lemma try_set_value_other: "r' \<noteq> r \<Longrightarrow> try_set_value r v h r' = h r'"
  by (simp add: try_set_value_def set_value_def)

lemma table_ok_erase_waiter: "table_ok st \<Longrightarrow> table_ok (erase_waiter k st)"
  by (auto simp: erase_waiter_def destroy_promise_other split: option.splits intro!: table_ok_remove)

lemma table_ok_resolve_waiter: "table_ok st \<Longrightarrow> table_ok (snd (resolve_waiter k v st))"
  by (auto simp: resolve_waiter_def destroy_promise_other try_set_value_other
      split: option.splits intro!: table_ok_remove)

lemma table_ok_frame:
  assumes "table_ok st" and "g_waiters st' = g_waiters st" and "promises st' = promises st"
    and "next_ref st' = next_ref st"
  shows "table_ok st'"
  using assms by (simp add: table_ok_def)

lemma erase_waiter_frame [simp]:
  "g_sock (erase_waiter k st) = g_sock st" "g_running (erase_waiter k st) = g_running st"
  "sent (erase_waiter k st) = sent st" "g_seq (erase_waiter k st) = g_seq st"
  "next_ref (erase_waiter k st) = next_ref st"
  by (simp_all add: erase_waiter_def split: option.splits)

lemma resolve_waiter_frame [simp]:
  "g_sock (snd (resolve_waiter k v st)) = g_sock st"
  "g_running (snd (resolve_waiter k v st)) = g_running st"
  "sent (snd (resolve_waiter k v st)) = sent st"
  "g_seq (snd (resolve_waiter k v st)) = g_seq st"
  "next_ref (snd (resolve_waiter k v st)) = next_ref st"
  by (simp_all add: resolve_waiter_def split: option.splits)

lemma values_ok_try_set_value:
  "values_ok h \<Longrightarrow> error_msg v = [] \<Longrightarrow> values_ok (try_set_value r v h)"
  by (auto simp: values_ok_def try_set_value_def set_value_def)

lemma values_ok_destroy_promise: "values_ok h \<Longrightarrow> values_ok (destroy_promise r h)"
  by (auto simp: values_ok_def destroy_promise_def)

lemma values_ok_get_future: "values_ok h \<Longrightarrow> get_future r h = Inr h' \<Longrightarrow> values_ok h'"
  by (auto simp: values_ok_def get_future_def split: if_splits)

lemma values_ok_drain_linux: "values_ok h \<Longrightarrow> values_ok (drain_linux kvs h)"
  by (induction kvs h rule: drain_linux.induct)
    (simp_all add: values_ok_try_set_value PingProbeResult_init_def)

lemma values_ok_drain_windows: "values_ok h \<Longrightarrow> values_ok (drain_windows kvs h)"
proof (induction kvs h rule: drain_windows.induct)
  case (2 k r kvs h)
  have "values_ok (case get_future r h of Inl _ \<Rightarrow> h
                   | Inr h1 \<Rightarrow> try_set_value r PingProbeResult_init h1)"
    using "2.prems"
    by (auto split: sum.splits
        intro!: values_ok_try_set_value simp: PingProbeResult_init_def
        dest: values_ok_get_future)
  then show ?case using "2.IH" by simp
qed simp

lemma values_ok_clear_waiters: "values_ok h \<Longrightarrow> values_ok (clear_waiters kvs h)"
  by (induction kvs h rule: clear_waiters.induct) (simp_all add: values_ok_destroy_promise)

lemma values_ok_erase_waiter:
  "values_ok (promises st) \<Longrightarrow> values_ok (promises (erase_waiter k st))"
  by (simp add: erase_waiter_def values_ok_destroy_promise split: option.splits)

lemma values_ok_resolve_waiter:
  "values_ok (promises st) \<Longrightarrow> error_msg v = [] \<Longrightarrow>
     values_ok (promises (snd (resolve_waiter k v st)))"
  by (simp add: resolve_waiter_def values_ok_destroy_promise values_ok_try_set_value
      split: option.splits)

lemma values_ok_register_waiter:
  "values_ok (promises st) \<Longrightarrow> values_ok (promises (register_waiter env k st))"
  by (auto simp: register_waiter_def Let_def values_ok_def destroy_promise_def)

lemma engine_inv_initial: "engine_inv engine_initial"
  by (simp add: engine_inv_def table_ok_def engine_initial_def values_ok_def)

lemma engine_inv_init: "engine_inv st \<Longrightarrow> engine_inv (snd (init_engine sys ie st))"
  by (auto simp: engine_inv_def init_engine_def table_ok_def split: os.splits option.splits)

lemma engine_inv_signal: "engine_inv st \<Longrightarrow> engine_inv (shutdown_signal st)"
  by (simp add: engine_inv_def shutdown_signal_def table_ok_def)

lemma engine_inv_close: "engine_inv st \<Longrightarrow> engine_inv (shutdown_close st)"
  by (simp add: engine_inv_def shutdown_close_def table_ok_def)

lemma engine_inv_drain: "engine_inv st \<Longrightarrow> engine_inv (shutdown_drain sys st)"
  by (cases sys)
    (simp_all add: engine_inv_def shutdown_drain_def table_ok_def values_ok_clear_waiters
       values_ok_drain_linux values_ok_drain_windows)

lemma engine_inv_erase: "engine_inv st \<Longrightarrow> engine_inv (erase_waiter k st)"
  by (simp add: engine_inv_def table_ok_erase_waiter values_ok_erase_waiter)

lemma engine_inv_listener: "engine_inv st \<Longrightarrow> engine_inv (listener_dispatch k t st)"
  by (simp add: engine_inv_def listener_dispatch_def table_ok_resolve_waiter
      values_ok_resolve_waiter PingProbeResult_init_def)

lemma engine_inv_await: "engine_inv st \<Longrightarrow> engine_inv (snd (ping_once_engine_await env k r st))"
  by (simp add: ping_once_engine_await_def engine_inv_erase split: shared_content.splits)

lemma table_ok_register:
  assumes ok: "table_ok st"
  shows "table_ok (register_waiter env k st)"
proof -
  let ?r = "next_ref st"
  let ?st' = "register_waiter env k st"
  have fresh: "?r \<notin> snd ` set (g_waiters st)"
    using table_okD(1) [OF ok] by fastforce
  have tbl: "g_waiters ?st' = umap_emplace k ?r (g_waiters st)"
    and nxt: "next_ref ?st' = Suc ?r"
    by (simp_all add: register_waiter_def Let_def)
  have other: "promises ?st' r' = promises st r'" if "r' \<noteq> ?r" for r'
    using that by (simp add: register_waiter_def Let_def destroy_promise_def)
  have cell: "content (promises ?st' ?r) = NotReady \<and> retrieved (promises ?st' ?r)"
    if "map_of (g_waiters st) k = None"
    using that by (simp add: register_waiter_def Let_def)
  show ?thesis
  proof (rule table_okI)
    show "distinct (map fst (g_waiters ?st'))"
      unfolding tbl using table_ok_distinct(1) [OF ok]
      by (auto simp: umap_emplace_def map_of_eq_None_iff)
    show "distinct (map snd (g_waiters ?st'))"
      unfolding tbl using table_ok_distinct(2) [OF ok] fresh by (auto simp: umap_emplace_def)
  next
    fix k' r'
    assume "(k', r') \<in> set (g_waiters ?st')"
    then consider (new) "map_of (g_waiters st) k = None" "r' = ?r"
      | (old) "(k', r') \<in> set (g_waiters st)"
      unfolding tbl by (auto simp: umap_emplace_def split: if_splits)
    then show "r' < next_ref ?st' \<and> content (promises ?st' r') = NotReady \<and>
               retrieved (promises ?st' r')"
    proof cases
      case new
      then show ?thesis using cell nxt by simp
    next
      case old
      then have "r' \<noteq> ?r" using fresh by force
      then show ?thesis using table_okD [OF ok old] other nxt by simp
    qed
  qed
qed

lemma table_ok_seq: "table_ok (st\<lparr>g_seq := x\<rparr>) = table_ok st"
  by (simp add: table_ok_def)

lemma register_waiter_frame [simp]:
  "g_sock (register_waiter env k st) = g_sock st"
  "g_running (register_waiter env k st) = g_running st"
  "sent (register_waiter env k st) = sent st"
  "g_seq (register_waiter env k st) = g_seq st"
  by (simp_all add: register_waiter_def Let_def)

lemma engine_inv_register:
  "engine_inv st \<Longrightarrow> engine_inv (register_waiter env k (st\<lparr>g_seq := x\<rparr>))"
  by (simp add: engine_inv_def table_ok_register table_ok_seq values_ok_register_waiter)

lemma engine_inv_set_ip_ttl: "engine_inv st \<Longrightarrow> engine_inv (set_ip_ttl env ttl_opt st)"
  by (auto simp: engine_inv_def set_ip_ttl_def table_ok_def)

lemma engine_inv_sendto: "engine_inv st \<Longrightarrow> engine_inv (sendto dst packet st)"
  by (auto simp: engine_inv_def sendto_def table_ok_def split: option.splits)

lemma engine_inv_local_linux:
  "engine_inv st \<Longrightarrow> engine_inv (snd (local_ping_linux env timeout_ms payload_size st))"
  by (auto simp: local_ping_linux_def engine_inv_def Let_def table_ok_seq split: sum.splits)

lemma issue_local_linux:
  "inet_pton env ip = Some dst \<Longrightarrow> is_local_ipv4_addr env dst \<Longrightarrow>
     snd (ping_once_engine_issue Linux env ip timeout_ms payload_size ttl_opt st) =
       snd (local_ping_linux env timeout_ms payload_size st)"
  by (simp add: ping_once_engine_issue_def)

lemma engine_inv_issue:
  assumes "engine_inv st"
  shows "engine_inv (snd (ping_once_engine_issue sys env ip timeout_ms payload_size ttl_opt st))"
  using assms engine_inv_local_linux [OF assms]
  by (simp add: ping_once_engine_issue_def Let_def engine_inv_register engine_inv_set_ip_ttl
      engine_inv_sendto engine_inv_erase split: option.splits os.splits sum.splits)

lemma reachable_inv: "reachable sys st \<Longrightarrow> engine_inv st"
  by (induction rule: reachable.induct)
    (simp_all add: engine_inv_initial engine_inv_init engine_inv_signal engine_inv_close
       engine_inv_drain engine_inv_issue engine_inv_await engine_inv_listener)

lemma reachable_shutdown: "reachable sys st \<Longrightarrow> reachable sys (shutdown_engine sys st)"
  unfolding shutdown_engine_def by (intro reachable_drain reachable_close reachable_signal)

section \<open>Shutdown\<close>

lemma reachable_example_engine: "reachable sys (example_engine sys)"
  unfolding example_engine_def by (intro reachable_init reachable_initial)

lemma reachable_example_pending: "reachable sys (example_pending sys)"
  unfolding example_pending_def by (intro reachable_issue reachable_example_engine)

lemma example_pending_waiters: "g_waiters (example_pending sys) = [(Key 0x1234 1, 0)]"
  by (cases sys) (simp_all add: run_defs)

text \<open>
  The sequence counter has 16 bits: after 65535 probes to a local address, which take a
  sequence number each and register nothing, it is back at the number of the probe that
  still waits.
\<close>

lemma local_step_linux:
  "snd (ping_once_engine_issue Linux example_env ''127.0.0.1'' 1000 0 (- 1) st) =
     st\<lparr>g_seq := g_seq st + 1\<rparr>"
  by (simp add: ping_once_engine_issue_def local_ping_linux_def example_env_def build_packet_def
      rcv_timeval_def so_rcvtimeo_def Let_def)

lemma local_steps_linux:
  "((\<lambda>st. snd (ping_once_engine_issue Linux example_env ''127.0.0.1'' 1000 0 (- 1) st)) ^^ n) st =
     st\<lparr>g_seq := g_seq st + of_nat n\<rparr>"
  by (induction n) (simp_all add: local_step_linux add.assoc)

lemma reachable_steps:
  "reachable sys st \<Longrightarrow>
     reachable sys
       (((\<lambda>st. snd (ping_once_engine_issue sys env ip timeout_ms payload_size ttl_opt st)) ^^ n) st)"
  by (induction n) (simp_all add: reachable_issue)

lemma example_pending_seq: "g_seq (example_pending Linux) = 2"
  by (simp add: run_defs)

lemma reachable_example_duplicate: "reachable Linux example_duplicate"
proof -
  have "reachable Linux
     (((\<lambda>st. snd (ping_once_engine_issue Linux example_env ''127.0.0.1'' 1000 0 (- 1) st)) ^^ 65535)
        (example_pending Linux))"
    by (rule reachable_steps [OF reachable_example_pending])
  moreover have "(65537 :: u16) = 1" by simp
  ultimately show ?thesis
    by (simp add: local_steps_linux example_pending_seq example_duplicate_def)
qed

lemma drain_linux_keeps:
  "content (h r) \<noteq> NotReady \<Longrightarrow> drain_linux kvs h r = h r"
  by (induction kvs h rule: drain_linux.induct)
    (auto simp: try_set_value_def set_value_def)

lemma drain_linux_sets:
  "(k, r) \<in> set kvs \<Longrightarrow> content (h r) = NotReady \<Longrightarrow>
     content (drain_linux kvs h r) = Value PingProbeResult_init"
proof (induction kvs h rule: drain_linux.induct)
  case (2 k' r' kvs h)
  show ?case
  proof (cases "r' = r")
    case True
    have "content (try_set_value r PingProbeResult_init h r) = Value PingProbeResult_init"
      using "2.prems"(2) by (simp add: try_set_value_def set_value_def)
    then show ?thesis using True by (simp add: drain_linux_keeps)
  next
    case False
    then have "(k, r) \<in> set kvs" using "2.prems"(1) by auto
    moreover have "content (try_set_value r' PingProbeResult_init h r) = NotReady"
      using False "2.prems"(2) by (simp add: try_set_value_other)
    ultimately show ?thesis using "2.IH" by simp
  qed
qed simp

lemma clear_waiters_keeps:
  "content (h r) \<noteq> NotReady \<Longrightarrow> clear_waiters kvs h r = h r"
  by (induction kvs h rule: clear_waiters.induct) (auto simp: destroy_promise_def)

lemma shutdown_linux_content:
  assumes "table_ok st" and "(k, r) \<in> set (g_waiters st)"
  shows "content (promises (shutdown_engine Linux st) r) = Value PingProbeResult_init"
proof -
  have "content (drain_linux (g_waiters st) (promises st) r) = Value PingProbeResult_init"
    using assms by (intro drain_linux_sets) (auto dest: table_okD)
  then show ?thesis by (simp add: shutdown_defs clear_waiters_keeps)
qed

text \<open>
  C1 (shutdown drains the table), as the code has it. On Linux, in every state of the
  engine, \<^verbatim>\<open>shutdown_engine\<close> leaves the table empty and the engine not running, and
  gives every waiter that is in the table the default result. The probe whose waiter
  it is finds its future ready when \<^verbatim>\<open>shutdown_engine\<close> has run: its wait ends then,
  not at its deadline, and it returns \<open>success = False\<close> with an empty error message
  (and the elapsed time as \<open>rtt_ms\<close>). The source has no text "Engine shut down". A
  probe that found its key in the table when it registered has its waiter in no table,
  and the loop of \<^verbatim>\<open>shutdown_engine\<close> does not reach it.
\<close>

theorem shutdown_drains_linux:
  assumes "reachable Linux st" and "(k, r) \<in> set (g_waiters st)"
  shows "g_waiters (shutdown_engine Linux st) = [] \<and>
         \<not> engine_available (shutdown_engine Linux st) \<and>
         content (promises (shutdown_engine Linux st) r) = Value PingProbeResult_init \<and>
         ping_once_engine_await env k r (shutdown_engine Linux st) =
           (Inr (PingProbeResult_init\<lparr>rtt_ms := elapsed_ms env\<rparr>), shutdown_engine Linux st) \<and>
         success (PingProbeResult_init\<lparr>rtt_ms := elapsed_ms env\<rparr>) = False \<and>
         error_msg (PingProbeResult_init\<lparr>rtt_ms := elapsed_ms env\<rparr>) = []"
proof -
  have ok: "table_ok st" using reachable_inv [OF assms(1)] by (simp add: engine_inv_def)
  have c: "content (promises (shutdown_engine Linux st) r) = Value PingProbeResult_init"
    by (rule shutdown_linux_content [OF ok assms(2)])
  then have "ping_once_engine_await env k r (shutdown_engine Linux st) =
           (Inr (PingProbeResult_init\<lparr>rtt_ms := elapsed_ms env\<rparr>), shutdown_engine Linux st)"
    by (simp add: ping_once_engine_await_def)
  then show ?thesis
    using c by (simp add: shutdown_defs engine_available_def PingProbeResult_init_def)
qed

theorem shutdown_drains_linux_witness:
  "reachable Linux (example_pending Linux) \<and>
   (Key 0x1234 1, 0) \<in> set (g_waiters (example_pending Linux)) \<and>
   fst (ping_once_engine_await example_env (Key 0x1234 1) 0
          (shutdown_engine Linux (example_pending Linux))) =
     Inr \<lparr>success = False, rtt_ms = 7, ttl = - 1, if_name = [], error_msg = []\<rparr>"
  using shutdown_drains_linux [OF reachable_example_pending, of "Key 0x1234 1" 0 example_env]
  by (simp add: reachable_example_pending example_pending_waiters PingProbeResult_init_def
      example_env_def)

lemma example_duplicate_waiters: "g_waiters example_duplicate = [(Key 0x1234 1, 0)]"
  by (simp add: example_duplicate_def example_pending_waiters)

text \<open>
  The claim as the specification states it fails. The error message of a probe drained
  by the shutdown of the Linux engine is empty. A probe that registered under a key
  that was in the table already (the state is one the engine reaches) is sent and waits,
  and a shutdown during its wait does not drain it: it ends with "Timeout" at its
  deadline, or, with a library whose \<^verbatim>\<open>emplace\<close> builds the node first, with the
  exception of its broken promise. On Windows the probe drained by the shutdown ends
  with that exception too.
\<close>

theorem shutdown_error_string_counterexample:
  "fst (ping_once_engine Linux example_env ''8.8.8.8'' 1000 0 (- 1) (shutdown_engine Linux)
          (example_engine Linux)) =
     Some (Inr \<lparr>success = False, rtt_ms = 7, ttl = - 1, if_name = [], error_msg = []\<rparr>) \<and>
   error_msg \<lparr>success = False, rtt_ms = 7, ttl = - 1, if_name = [], error_msg = []\<rparr>
     \<noteq> ''Engine shut down'' \<and>
   reachable Linux example_duplicate \<and>
   g_waiters example_duplicate = [(Key 0x1234 1, 0)] \<and>
   fst (ping_once_engine_issue Linux (example_env\<lparr>emplace_constructs := False\<rparr>) ''8.8.8.8''
          1000 0 (- 1) example_duplicate) = Waiting (Key 0x1234 1) 1 \<and>
   fst (ping_once_engine Linux (example_env\<lparr>emplace_constructs := False\<rparr>) ''8.8.8.8'' 1000 0
          (- 1) (shutdown_engine Linux) example_duplicate) =
     Some (Inr (PingProbeResult_init\<lparr>error_msg := ''Timeout''\<rparr>)) \<and>
   fst (ping_once_engine Linux example_env ''8.8.8.8'' 1000 0 (- 1) (shutdown_engine Linux)
          example_duplicate) =
     Some (Inl (future_error broken_promise)) \<and>
   fst (ping_once_engine Windows example_env ''8.8.8.8'' 1000 0 (- 1) (shutdown_engine Windows)
          (example_engine Windows)) =
     Some (Inl (future_error broken_promise))"
  by (simp add: reachable_example_duplicate example_duplicate_waiters)
    (simp add: example_duplicate_def run_defs)

text \<open>
  On Windows the loop of \<^verbatim>\<open>shutdown_engine\<close> asks every promise for its future again.
  The future was taken when the probe registered, so \<^verbatim>\<open>get_future\<close> throws, the
  \<^verbatim>\<open>catch (...)\<close> swallows it and \<^verbatim>\<open>set_value\<close> is never reached; \<^verbatim>\<open>clear()\<close> then
  breaks every promise, and the waiting \<^verbatim>\<open>fut.get()\<close> throws \<^verbatim>\<open>std::future_error\<close> out of
  \<^verbatim>\<open>ping_once_engine\<close>.
\<close>

lemma drain_windows_retrieved:
  "list_all (\<lambda>kv. retrieved (h (snd kv))) kvs \<Longrightarrow> drain_windows kvs h = h"
  by (induction kvs h rule: drain_windows.induct) (simp_all add: get_future_def)

lemma clear_waiters_breaks:
  "(k, r) \<in> set kvs \<Longrightarrow> content (h r) = NotReady \<Longrightarrow>
     content (clear_waiters kvs h r) = Exception broken_promise"
proof (induction kvs h rule: clear_waiters.induct)
  case (2 k' r' kvs h)
  show ?case
  proof (cases "r' = r")
    case True
    have "content (destroy_promise r h r) = Exception broken_promise"
      using "2.prems"(2) by (simp add: destroy_promise_def)
    then show ?thesis using True by (simp add: clear_waiters_keeps)
  next
    case False
    then have "(k, r) \<in> set kvs" using "2.prems"(1) by auto
    moreover have "content (destroy_promise r' h r) = NotReady"
      using False "2.prems"(2) by (simp add: destroy_promise_other)
    ultimately show ?thesis using "2.IH" by simp
  qed
qed simp

lemma shutdown_breaks_windows:
  assumes "reachable Windows st" and "(k, r) \<in> set (g_waiters st)"
  shows "ping_once_engine_await env k r (shutdown_engine Windows st) =
           (Inl (future_error broken_promise), shutdown_engine Windows st)"
proof -
  have ok: "table_ok st" using reachable_inv [OF assms(1)] by (simp add: engine_inv_def)
  then have "list_all (\<lambda>kv. retrieved (promises st (snd kv))) (g_waiters st)"
    by (auto simp: table_ok_def list_all_iff)
  then have "drain_windows (g_waiters st) (promises st) = promises st"
    by (rule drain_windows_retrieved)
  moreover have "content (promises st r) = NotReady" using table_okD(2) [OF ok assms(2)] .
  ultimately have "content (promises (shutdown_engine Windows st) r) = Exception broken_promise"
    using assms(2) by (simp add: shutdown_defs clear_waiters_breaks)
  then show ?thesis by (simp add: ping_once_engine_await_def)
qed

lemma shutdown_breaks_windows_example:
  "fst (ping_once_engine Windows example_env ''8.8.8.8'' 1000 0 (- 1) (shutdown_engine Windows)
          (example_engine Windows)) = Some (Inl (future_error broken_promise))"
  by (simp add: run_defs)

section \<open>Resolution and timeout\<close>

lemma map_of_erase_waiter: "map_of (g_waiters (erase_waiter k st)) k = None"
  by (auto simp: erase_waiter_def map_of_umap_erase split: option.splits)

lemma resolve_waiter_absent:
  "map_of (g_waiters st) k = None \<Longrightarrow> resolve_waiter k v st = (False, st)"
  by (simp add: resolve_waiter_def)

lemma map_of_resolve_waiter: "map_of (g_waiters (snd (resolve_waiter k v st))) k = None"
  by (auto simp: resolve_waiter_def map_of_umap_erase split: option.splits)

text \<open>
  C4 (at-most-once resolution). In every state of the engine and for every key in the
  table, the first run of the listener's block finds the key, removes the entry and
  gives its outcome to the waiter; a second run for the same key finds nothing, and
  leaves the table and every waiter as they are (the whole state is unchanged).
\<close>

theorem resolve_at_most_once:
  assumes "reachable sys st" and "map_of (g_waiters st) k = Some r"
  shows "fst (resolve_waiter k v1 st) = True \<and>
         map_of (g_waiters (snd (resolve_waiter k v1 st))) k = None \<and>
         content (promises (snd (resolve_waiter k v1 st)) r) = Value v1 \<and>
         resolve_waiter k v2 (snd (resolve_waiter k v1 st)) = (False, snd (resolve_waiter k v1 st))"
proof -
  have ok: "table_ok st" using reachable_inv [OF assms(1)] by (simp add: engine_inv_def)
  have "content (promises st r) = NotReady"
    using table_okD(2) [OF ok map_of_SomeD [OF assms(2)]] .
  then have "content (promises (snd (resolve_waiter k v1 st)) r) = Value v1"
    using assms(2)
    by (simp add: resolve_waiter_def try_set_value_def set_value_def destroy_promise_def)
  moreover have "fst (resolve_waiter k v1 st) = True"
    using assms(2) by (simp add: resolve_waiter_def)
  ultimately show ?thesis
    by (simp add: map_of_resolve_waiter resolve_waiter_absent)
qed

theorem resolve_at_most_once_witness:
  "reachable Linux (example_pending Linux) \<and>
   map_of (g_waiters (example_pending Linux)) (Key 0x1234 1) = Some 0 \<and>
   fst (resolve_waiter (Key 0x1234 1) (PingProbeResult_init\<lparr>success := True\<rparr>)
          (example_pending Linux)) = True \<and>
   fst (resolve_waiter (Key 0x1234 1) (PingProbeResult_init\<lparr>success := True, ttl := 9\<rparr>)
          (snd (resolve_waiter (Key 0x1234 1) (PingProbeResult_init\<lparr>success := True\<rparr>)
                  (example_pending Linux)))) = False"
  using resolve_at_most_once [OF reachable_example_pending,
      of Linux "Key 0x1234 1" 0 "PingProbeResult_init\<lparr>success := True\<rparr>"
         "PingProbeResult_init\<lparr>success := True, ttl := 9\<rparr>"]
  by (simp add: reachable_example_pending example_pending_waiters)

lemma await_not_ready:
  "content (promises st r) = NotReady \<Longrightarrow>
     ping_once_engine_await env k r st =
       (Inr (PingProbeResult_init\<lparr>error_msg := ''Timeout''\<rparr>), erase_waiter k st)"
  by (simp add: ping_once_engine_await_def)

text \<open>
  C8 (no leak on timeout). A probe that went through the table (it was sent and its
  caller waited) and whose \<^verbatim>\<open>ping_once_engine\<close> returns the outcome "Timeout": the
  state at the return is the one after \<^verbatim>\<open>g_waiters.erase(k)\<close>, and the table has no
  entry for the key of the probe. What the other threads did during the wait is any
  function that leaves the engine in one of its states.
\<close>

theorem timeout_leaves_no_entry:
  assumes "ping_once_engine_issue sys env ip timeout_ms payload_size ttl_opt st = (Waiting k r, st1)"
    and "reachable sys (others st1)"
    and "ping_once_engine sys env ip timeout_ms payload_size ttl_opt others st =
           (Some (Inr res), st')"
    and "error_msg res = ''Timeout''"
  shows "map_of (g_waiters st') k = None \<and> st' = erase_waiter k (others st1) \<and>
         res = PingProbeResult_init\<lparr>error_msg := ''Timeout''\<rparr>"
proof -
  have aw: "ping_once_engine_await env k r (others st1) = (Inr res, st')"
    using assms(1,3)
    by (cases "ping_once_engine_await env k r (others st1)") (simp add: ping_once_engine_def)
  have vals: "values_ok (promises (others st1))"
    using reachable_inv [OF assms(2)] by (simp add: engine_inv_def)
  have "content (promises (others st1) r) = NotReady"
  proof (cases "content (promises (others st1) r)")
    case (Value v)
    then have "res = v\<lparr>rtt_ms := elapsed_ms env\<rparr>" using aw by (simp add: ping_once_engine_await_def)
    moreover have "error_msg v = []" using vals Value by (simp add: values_ok_def)
    ultimately show ?thesis using assms(4) by simp
  next
    case (Exception c)
    then show ?thesis using aw by (simp add: ping_once_engine_await_def)
  qed simp
  then show ?thesis using aw map_of_erase_waiter [of k "others st1"]
    by (auto simp: await_not_ready)
qed

theorem timeout_leaves_no_entry_witness:
  "ping_once_engine_issue Linux example_env ''8.8.8.8'' 1000 0 (- 1) (example_engine Linux) =
     (Waiting (Key 0x1234 1) 0, example_pending Linux) \<and>
   reachable Linux (id (example_pending Linux)) \<and>
   fst (ping_once_engine Linux example_env ''8.8.8.8'' 1000 0 (- 1) id (example_engine Linux)) =
     Some (Inr (PingProbeResult_init\<lparr>error_msg := ''Timeout''\<rparr>)) \<and>
   map_of (g_waiters (snd (ping_once_engine Linux example_env ''8.8.8.8'' 1000 0 (- 1) id
                             (example_engine Linux)))) (Key 0x1234 1) = None"
proof -
  have i: "ping_once_engine_issue Linux example_env ''8.8.8.8'' 1000 0 (- 1) (example_engine Linux) =
     (Waiting (Key 0x1234 1) 0, example_pending Linux)"
    unfolding example_pending_def by (rule prod_eqI) (simp_all add: run_defs)
  have r: "reachable Linux (id (example_pending Linux))"
    by (simp add: reachable_example_pending)
  have f: "fst (ping_once_engine Linux example_env ''8.8.8.8'' 1000 0 (- 1) id (example_engine Linux)) =
     Some (Inr (PingProbeResult_init\<lparr>error_msg := ''Timeout''\<rparr>))"
    by (simp add: run_defs)
  have e: "error_msg (PingProbeResult_init\<lparr>error_msg := ''Timeout''\<rparr>) = ''Timeout''" by simp
  let ?run = "ping_once_engine Linux example_env ''8.8.8.8'' 1000 0 (- 1) id (example_engine Linux)"
  have full: "?run = (Some (Inr (PingProbeResult_init\<lparr>error_msg := ''Timeout''\<rparr>)), snd ?run)"
    by (rule prod_eqI) (simp_all add: f)
  show ?thesis
    using timeout_leaves_no_entry [where others = id, OF i r full e] i r f
    by (simp add: map_of_erase_waiter)
qed

section \<open>The paths of a probe\<close>

lemma issue_invalid_ip:
  "inet_pton env ip = None \<Longrightarrow>
     ping_once_engine_issue sys env ip timeout_ms payload_size ttl_opt st =
       (Done (Inr (PingProbeResult_init\<lparr>error_msg := ''Invalid IP''\<rparr>)), st)"
  by (simp add: ping_once_engine_issue_def)

lemma issue_no_socket:
  "inet_pton env ip = Some dst \<Longrightarrow> \<not> is_local_ipv4_addr env dst \<Longrightarrow> g_sock st = None \<Longrightarrow>
     ping_once_engine_issue sys env ip timeout_ms payload_size ttl_opt st =
       (Done (Inr (PingProbeResult_init\<lparr>error_msg := ''Engine socket not available''\<rparr>)), st)"
  by (simp add: ping_once_engine_issue_def)

lemma build_packet_ok:
  "0 \<le> payload_size \<Longrightarrow>
     build_packet sys e ident sq tk payload_size = Inr (echo_request e ident sq tk (nat payload_size))"
  by (cases sys) (simp_all add: build_packet_def)

lemma issue_send_failed:
  "inet_pton env ip = Some dst \<Longrightarrow> \<not> is_local_ipv4_addr env dst \<Longrightarrow> g_sock st \<noteq> None \<Longrightarrow>
   0 \<le> payload_size \<Longrightarrow> \<not> sendto_ok env \<Longrightarrow>
     ping_once_engine_issue sys env ip timeout_ms payload_size ttl_opt st =
       (Done (Inr (PingProbeResult_init\<lparr>error_msg := sendto_failed sys\<rparr>)),
        erase_waiter (probe_key env st) (prepared env ttl_opt st))"
  by (auto simp: ping_once_engine_issue_def build_packet_ok prepared_def Let_def probe_key_def)

lemma issue_sent:
  "inet_pton env ip = Some dst \<Longrightarrow> \<not> is_local_ipv4_addr env dst \<Longrightarrow> g_sock st \<noteq> None \<Longrightarrow>
   0 \<le> payload_size \<Longrightarrow> sendto_ok env \<Longrightarrow>
     ping_once_engine_issue sys env ip timeout_ms payload_size ttl_opt st =
       (Waiting (probe_key env st) (next_ref st),
        sendto dst
          (echo_request (host env) (ucast (pid env AND 0xFFFF)) (g_seq st) (ticks env)
             (nat payload_size))
          (prepared env ttl_opt st))"
  by (auto simp: ping_once_engine_issue_def build_packet_ok prepared_def Let_def probe_key_def)

lemma issue_waiting_cases:
  assumes "ping_once_engine_issue sys env ip timeout_ms payload_size ttl_opt st = (Waiting k r, st')"
  obtains dst packet where "inet_pton env ip = Some dst" and "\<not> is_local_ipv4_addr env dst"
    and "g_sock st \<noteq> None" and "sendto_ok env"
    and "k = probe_key env st" and "r = next_ref st"
    and "st' = sendto dst packet (prepared env ttl_opt st)"
  using assms
  by (auto simp: ping_once_engine_issue_def prepared_def Let_def
      split: option.splits if_splits os.splits sum.splits)

lemma prepared_frame [simp]:
  "g_running (prepared env ttl_opt st) = g_running st"
  "sent (prepared env ttl_opt st) = sent st"
  "g_seq (prepared env ttl_opt st) = g_seq st + 1"
  "g_waiters (prepared env ttl_opt st) = umap_emplace (probe_key env st) (next_ref st) (g_waiters st)"
  "g_sock (prepared env ttl_opt st) =
     (if 0 < ttl_opt \<and> setsockopt_ok env
      then map_option (\<lambda>s. s\<lparr>ip_ttl := ttl_opt\<rparr>) (g_sock st) else g_sock st)"
  by (simp_all add: prepared_def set_ip_ttl_def register_waiter_def Let_def)

lemma sendto_frame [simp]:
  "g_running (sendto dst packet st) = g_running st"
  "g_sock (sendto dst packet st) = g_sock st"
  "g_seq (sendto dst packet st) = g_seq st"
  "g_waiters (sendto dst packet st) = g_waiters st"
  "promises (sendto dst packet st) = promises st"
  "next_ref (sendto dst packet st) = next_ref st"
  by (simp_all add: sendto_def split: option.splits)

lemma sendto_sent:
  "g_sock st = Some s \<Longrightarrow>
     sent (sendto dst packet st) = sent st @ [\<lparr>dg_dst = dst, dg_ttl = ip_ttl s, dg_data = packet\<rparr>]"
  by (simp add: sendto_def)

lemma issue_running:
  "g_running (snd (ping_once_engine_issue sys env ip timeout_ms payload_size ttl_opt st)) =
     g_running st"
  by (simp add: ping_once_engine_issue_def local_ping_linux_def Let_def set_ip_ttl_def
      sendto_def split: option.splits os.splits sum.splits)

lemma issue_no_sock:
  "g_sock st = None \<Longrightarrow>
     g_sock (snd (ping_once_engine_issue sys env ip timeout_ms payload_size ttl_opt st)) = None"
  by (simp add: ping_once_engine_issue_def local_ping_linux_def Let_def
      split: option.splits os.splits sum.splits)

text \<open>Between whole calls an engine that is not running has no socket.\<close>

lemma settled_sock: "settled sys st \<Longrightarrow> g_running st \<or> g_sock st = None"
proof (induction rule: settled.induct)
  case settled_initial
  then show ?case by (simp add: engine_initial_def)
next
  case (settled_init st ie)
  then show ?case by (auto simp: init_engine_def split: os.splits option.splits)
next
  case (settled_shutdown st)
  then show ?case by (simp add: shutdown_defs)
next
  case (settled_issue st env ip timeout_ms payload_size ttl_opt)
  then show ?case using issue_running issue_no_sock by metis
next
  case (settled_await st env k r)
  then show ?case by (simp add: ping_once_engine_await_def split: shared_content.splits)
next
  case (settled_listener st k ttl_val)
  then show ?case by (simp add: listener_dispatch_def)
qed

text \<open>
  C9 (probe while the engine is not running), as the code has it. In every state of the
  engine between whole calls in which \<^verbatim>\<open>engine_available()\<close> is false, a probe to a
  destination that parses and is not an address of the local host returns
  \<open>success = False\<close> with the error "Engine socket not available" and leaves the engine
  as it was: nothing is sent through the socket and nothing is registered.
  \<^verbatim>\<open>ping_once_engine\<close> never reads \<^verbatim>\<open>g_running\<close>; it tests \<^verbatim>\<open>g_sock\<close>.
\<close>

theorem probe_without_engine:
  assumes "settled sys st" and "\<not> engine_available st"
    and "inet_pton env ip = Some dst" and "\<not> is_local_ipv4_addr env dst"
  shows "ping_once_engine sys env ip timeout_ms payload_size ttl_opt others st =
           (Some (Inr (PingProbeResult_init\<lparr>error_msg := ''Engine socket not available''\<rparr>)),
            st) \<and>
         success (PingProbeResult_init\<lparr>error_msg := ''Engine socket not available''\<rparr>) = False"
proof -
  have "g_sock st = None"
    using settled_sock [OF assms(1)] assms(2) by (simp add: engine_available_def)
  then show ?thesis
    using issue_no_socket [OF assms(3,4)]
    by (simp add: ping_once_engine_def PingProbeResult_init_def)
qed

theorem probe_without_engine_witness:
  "settled Linux engine_initial \<and> \<not> engine_available engine_initial \<and>
   inet_pton example_env ''8.8.8.8'' = Some 0x08080808 \<and>
   \<not> is_local_ipv4_addr example_env 0x08080808 \<and>
   ping_once_engine Linux example_env ''8.8.8.8'' 1000 0 (- 1) id engine_initial =
     (Some (Inr (PingProbeResult_init\<lparr>error_msg := ''Engine socket not available''\<rparr>)),
      engine_initial)"
proof -
  have 1: "settled Linux engine_initial" by (rule settled_initial)
  have 2: "\<not> engine_available engine_initial" by (simp add: engine_available_def engine_initial_def)
  have 3: "inet_pton example_env ''8.8.8.8'' = Some 0x08080808" by (simp add: example_env_def)
  have 4: "\<not> is_local_ipv4_addr example_env 0x08080808" by (simp add: example_env_def)
  show ?thesis
    using probe_without_engine [OF 1 2 3 4, where timeout_ms = 1000 and payload_size = 0
        and ttl_opt = "- 1" and others = id] 1 2 3 4 by simp
qed

text \<open>
  The claim fails for a local destination: the fast path comes before the test of the
  socket and does not look at the engine, so the probe succeeds with the engine stopped.
  It also fails while a \<^verbatim>\<open>shutdown_engine\<close> is under way: after \<^verbatim>\<open>g_running = false\<close>
  and before the socket is closed, a probe to a remote destination is still sent.
\<close>

theorem probe_without_engine_counterexample:
  "\<not> engine_available engine_initial \<and>
   fst (ping_once_engine Windows example_env ''127.0.0.1'' 1000 0 (- 1) id engine_initial) =
     Some (Inr \<lparr>success = True, rtt_ms = 1, ttl = 128, if_name = [], error_msg = []\<rparr>) \<and>
   fst (ping_once_engine Linux example_env ''127.0.0.1'' 1000 0 (- 1) id engine_initial) =
     Some (Inr \<lparr>success = True, rtt_ms = 7, ttl = 64, if_name = [], error_msg = []\<rparr>) \<and>
   \<not> engine_available (shutdown_signal (example_engine Linux)) \<and>
   fst (ping_once_engine_issue Linux example_env ''8.8.8.8'' 1000 0 (- 1)
          (shutdown_signal (example_engine Linux))) = Waiting (Key 0x1234 1) 0 \<and>
   length (sent (snd (ping_once_engine_issue Linux example_env ''8.8.8.8'' 1000 0 (- 1)
                        (shutdown_signal (example_engine Linux))))) = 1"
  by (simp add: run_defs)

section \<open>The request and the socket\<close>

lemma store16_htons:
  "store16 e (htons e v) = [ucast (drop_bit 8 v), ucast v]"
proof (cases e)
  case LittleEndian
  have "(ucast (push_bit 8 v OR drop_bit 8 v) :: u8) = ucast (drop_bit 8 v)"
    by (rule bit_word_eqI) (auto simp: bit_simps)
  moreover have "(ucast (drop_bit 8 (push_bit 8 v OR drop_bit 8 v)) :: u8) = ucast v"
    by (rule bit_word_eqI) (auto simp: bit_simps)
  ultimately show ?thesis using LittleEndian by simp
next
  case BigEndian
  then show ?thesis by simp
qed

lemma length_store16 [simp]: "length (store16 e v) = 2"
  by (cases e) simp_all

lemma length_store64 [simp]: "length (store64 e v) = 8"
  by (cases e) simp_all

lemma echo_request_layout:
  "echo_request e ident sq tk n =
     [8, 0] @ store16 e (checksum16 e ([8, 0] @ [0, 0] @ [ucast (drop_bit 8 ident), ucast ident]
                                        @ [ucast (drop_bit 8 sq), ucast sq]
                                        @ store64 e tk @ replicate n 0))
     @ [ucast (drop_bit 8 ident), ucast ident] @ [ucast (drop_bit 8 sq), ucast sq]
     @ store64 e tk @ replicate n 0"
  by (simp add: echo_request_def set_checksum_def store16_htons Let_def)

text \<open>
  C7 (the Echo Request on the wire), as the code has it. The datagram a probe sends is:
  type 8, code 0, the checksum (stored last, computed over the whole buffer with its
  field zero, in the byte order in which \<^verbatim>\<open>checksum16\<close> read the buffer), the
  identifier and the sequence number high byte first on either host, then eight bytes
  the engine inserts (\<^verbatim>\<open>ticks\<close>, in host byte order), then \<open>payload_size\<close> zero
  bytes. The bytes after the 8-byte header number \<open>8 + payload_size\<close>; the caller
  supplies a size, not bytes.
\<close>

theorem echo_request_on_the_wire:
  assumes "inet_pton env ip = Some dst" and "\<not> is_local_ipv4_addr env dst"
    and "g_sock st \<noteq> None" and "0 \<le> payload_size" and "sendto_ok env"
  shows "let body = [ucast (drop_bit 8 (key_id (probe_key env st))), ucast (key_id (probe_key env st))]
                    @ [ucast (drop_bit 8 (g_seq st)), ucast (g_seq st)]
                    @ store64 (host env) (ticks env) @ replicate (nat payload_size) 0;
             packet = dg_data (last (sent (snd (ping_once_engine_issue sys env ip timeout_ms
                                                  payload_size ttl_opt st))))
         in packet = [8, 0] @ store16 (host env) (checksum16 (host env) ([8, 0] @ [0, 0] @ body))
                     @ body \<and>
            length (drop 8 packet) = 8 + nat payload_size"
proof -
  have "g_sock (prepared env ttl_opt st) \<noteq> None"
    using assms(3) by simp
  then obtain s where s: "g_sock (prepared env ttl_opt st) = Some s"
    by blast
  show ?thesis
    by (simp add: issue_sent [OF assms] sendto_sent [OF s] echo_request_layout probe_key_def)
qed

theorem echo_request_on_the_wire_witness:
  "inet_pton example_env ''8.8.8.8'' = Some 0x08080808 \<and>
   \<not> is_local_ipv4_addr example_env 0x08080808 \<and>
   g_sock (example_engine Linux) \<noteq> None \<and> (0::int) \<le> 2 \<and> sendto_ok example_env \<and>
   length (drop 8 (dg_data (last (sent (snd (ping_once_engine_issue Linux example_env ''8.8.8.8''
                                             1000 2 (- 1) (example_engine Linux))))))) = 10"
proof -
  have 1: "inet_pton example_env ''8.8.8.8'' = Some 0x08080808" by (simp add: example_env_def)
  have 2: "\<not> is_local_ipv4_addr example_env 0x08080808" by (simp add: example_env_def)
  have 3: "g_sock (example_engine Linux) \<noteq> None" by (simp add: run_defs)
  have 4: "(0::int) \<le> 2" by simp
  have 5: "sendto_ok example_env" by (simp add: example_env_def)
  show ?thesis
    using echo_request_on_the_wire [OF 1 2 3 4 5, where sys = Linux and timeout_ms = 1000
        and ttl_opt = "- 1"] 1 2 3 5
    by (simp add: Let_def)
qed

text \<open>
  The claim fails at \<open>payload_size = 0\<close>: eight bytes follow the header, and they are
  the timestamp of the engine.
\<close>

theorem echo_request_payload_counterexample:
  "dg_data (last (sent (snd (ping_once_engine_issue Linux example_env ''8.8.8.8'' 1000 0 (- 1)
                               (example_engine Linux))))) =
     [8, 0, 209, 186, 0x12, 0x34, 0, 1] @ [8, 7, 6, 5, 4, 3, 2, 1] \<and>
   length [8, 7, 6, 5, 4, 3, 2, 1 :: u8] \<noteq> nat 0 \<and>
   store64 LittleEndian (ticks example_env) = [8, 7, 6, 5, 4, 3, 2, 1]"
  by (simp add: run_defs)

lemma listener_dispatch_sock: "g_sock (listener_dispatch k ttl_val st) = g_sock st"
  by (simp add: listener_dispatch_def)

lemma await_sock: "g_sock (snd (ping_once_engine_await env k r st)) = g_sock st"
  by (simp add: ping_once_engine_await_def split: shared_content.splits)

text \<open>
  C10 (the TTL override stays on the shared socket). A probe sent with a \<open>ttl > 0\<close>
  that the system accepts leaves \<^verbatim>\<open>IP_TTL\<close> of \<^verbatim>\<open>g_sock\<close> at that value and goes out
  with it. Neither the listener nor the end of a wait touches the socket, and a later
  probe of any caller with \<open>ttl \<le> 0\<close>, sent while the socket is as the first probe
  left it, goes out with the TTL of the first probe and leaves it in place.
\<close>

theorem ttl_override_persists:
  assumes "ping_once_engine_issue sys env ip timeout_ms payload_size ttl_opt st = (Waiting k r, st1)"
    and "0 < ttl_opt" and "setsockopt_ok env"
    and "g_sock (others st1) = g_sock st1"
    and "ping_once_engine_issue sys env' ip' timeout_ms' payload_size' ttl_opt' (others st1) =
           (Waiting k' r', st2)"
    and "ttl_opt' \<le> 0"
  shows "map_option ip_ttl (g_sock st1) = Some ttl_opt \<and> dg_ttl (last (sent st1)) = ttl_opt \<and>
         map_option ip_ttl (g_sock st2) = Some ttl_opt \<and> dg_ttl (last (sent st2)) = ttl_opt \<and>
         g_sock (listener_dispatch k'' ttl_val st1) = g_sock st1 \<and>
         g_sock (snd (ping_once_engine_await env'' k'' r'' st1)) = g_sock st1"
proof -
  obtain dst packet where a: "g_sock st \<noteq> None"
    and st1: "st1 = sendto dst packet (prepared env ttl_opt st)"
    using assms(1) by (rule issue_waiting_cases)
  obtain s where s: "g_sock st = Some s" using a by blast
  have sock1: "g_sock st1 = Some (s\<lparr>ip_ttl := ttl_opt\<rparr>)"
    using assms(2,3) s by (simp add: st1)
  have sent1: "dg_ttl (last (sent st1)) = ttl_opt"
    using assms(2,3) s by (simp add: st1 sendto_sent [where s = "s\<lparr>ip_ttl := ttl_opt\<rparr>"])
  obtain dst' packet' where st2: "st2 = sendto dst' packet' (prepared env' ttl_opt' (others st1))"
    using assms(5) by (rule issue_waiting_cases)
  have p2: "g_sock (prepared env' ttl_opt' (others st1)) = Some (s\<lparr>ip_ttl := ttl_opt\<rparr>)"
    using assms(4,6) sock1 by simp
  have "g_sock st2 = Some (s\<lparr>ip_ttl := ttl_opt\<rparr>)" using p2 by (simp add: st2)
  moreover have "dg_ttl (last (sent st2)) = ttl_opt"
    by (simp add: st2 sendto_sent [OF p2])
  ultimately show ?thesis
    using sock1 sent1 by (simp add: listener_dispatch_sock await_sock)
qed

theorem ttl_override_persists_witness:
  "ping_once_engine_issue Linux example_env ''8.8.8.8'' 1000 0 5 (example_engine Linux) =
     (Waiting (Key 0x1234 1) 0,
      snd (ping_once_engine_issue Linux example_env ''8.8.8.8'' 1000 0 5 (example_engine Linux))) \<and>
   (0::int) < 5 \<and> setsockopt_ok example_env \<and> (- 1 :: int) \<le> 0 \<and>
   fst (ping_once_engine_issue Linux example_env ''8.8.8.8'' 1000 0 (- 1)
          (snd (ping_once_engine_issue Linux example_env ''8.8.8.8'' 1000 0 5 (example_engine Linux))))
     = Waiting (Key 0x1234 2) 1 \<and>
   dg_ttl (last (sent (snd (ping_once_engine_issue Linux example_env ''8.8.8.8'' 1000 0 (- 1)
          (snd (ping_once_engine_issue Linux example_env ''8.8.8.8'' 1000 0 5
                  (example_engine Linux))))))) = 5"
proof -
  let ?st1 = "snd (ping_once_engine_issue Linux example_env ''8.8.8.8'' 1000 0 5 (example_engine Linux))"
  let ?st2 = "snd (ping_once_engine_issue Linux example_env ''8.8.8.8'' 1000 0 (- 1) ?st1)"
  have 1: "ping_once_engine_issue Linux example_env ''8.8.8.8'' 1000 0 5 (example_engine Linux) =
     (Waiting (Key 0x1234 1) 0, ?st1)"
    by (rule prod_eqI) (simp_all add: run_defs)
  have 2: "(0::int) < 5" by simp
  have s: "setsockopt_ok example_env" by (simp add: example_env_def)
  have 3: "g_sock (id ?st1) = g_sock ?st1" by simp
  have 4: "ping_once_engine_issue Linux example_env ''8.8.8.8'' 1000 0 (- 1) (id ?st1) =
     (Waiting (Key 0x1234 2) 1, ?st2)"
    by (rule prod_eqI) (simp_all add: run_defs)
  have 5: "(- 1 :: int) \<le> 0" by simp
  have 6: "fst (ping_once_engine_issue Linux example_env ''8.8.8.8'' 1000 0 (- 1) ?st1) =
     Waiting (Key 0x1234 2) 1"
    by (simp add: run_defs)
  have "dg_ttl (last (sent ?st2)) = 5"
    using ttl_override_persists [where others = id, OF 1 2 s 3 4 5] by simp
  then show ?thesis using 1 6 s by simp
qed

section \<open>A key used twice\<close>

lemma umap_emplace_present: "map_of m k = Some v' \<Longrightarrow> umap_emplace k v m = m"
  by (simp add: umap_emplace_def)

text \<open>
  C3 (a key that is in the table already), as the code has it. \<^verbatim>\<open>emplace\<close> inserts
  nothing and the entry that is there stays as it is, but the source never looks at
  what \<^verbatim>\<open>emplace\<close> returns: there is no failure, the new waiter is in no table, and
  the probe goes on, sends its request and waits.
\<close>

theorem duplicate_key_proceeds:
  assumes "inet_pton env ip = Some dst" and "\<not> is_local_ipv4_addr env dst"
    and "g_sock st \<noteq> None" and "0 \<le> payload_size" and "sendto_ok env"
    and "map_of (g_waiters st) (probe_key env st) = Some r0"
  shows "fst (ping_once_engine_issue sys env ip timeout_ms payload_size ttl_opt st) =
           Waiting (probe_key env st) (next_ref st) \<and>
         g_waiters (snd (ping_once_engine_issue sys env ip timeout_ms payload_size ttl_opt st)) =
           g_waiters st \<and>
         length (sent (snd (ping_once_engine_issue sys env ip timeout_ms payload_size ttl_opt st))) =
           Suc (length (sent st))"
proof -
  have "g_sock (prepared env ttl_opt st) \<noteq> None"
    using assms(3) by simp
  then obtain s where s: "g_sock (prepared env ttl_opt st) = Some s"
    by blast
  show ?thesis
    by (simp add: issue_sent [OF assms(1-5)] sendto_sent [OF s] umap_emplace_present [OF assms(6)])
qed

theorem duplicate_key_proceeds_witness:
  "inet_pton example_env ''8.8.8.8'' = Some 0x08080808 \<and>
   \<not> is_local_ipv4_addr example_env 0x08080808 \<and>
   g_sock example_duplicate \<noteq> None \<and> (0::int) \<le> 0 \<and> sendto_ok example_env \<and>
   map_of (g_waiters example_duplicate) (probe_key example_env example_duplicate) = Some 0 \<and>
   g_waiters (snd (ping_once_engine_issue Linux example_env ''8.8.8.8'' 1000 0 (- 1)
                     example_duplicate)) = [(Key 0x1234 1, 0)]"
proof -
  have 1: "inet_pton example_env ''8.8.8.8'' = Some 0x08080808" by (simp add: example_env_def)
  have 2: "\<not> is_local_ipv4_addr example_env 0x08080808" by (simp add: example_env_def)
  have 3: "g_sock example_duplicate \<noteq> None" by (simp add: example_duplicate_def run_defs)
  have 4: "(0::int) \<le> 0" by simp
  have 5: "sendto_ok example_env" by (simp add: example_env_def)
  have 6: "map_of (g_waiters example_duplicate) (probe_key example_env example_duplicate) = Some 0"
    by (simp add: example_duplicate_def run_defs)
  have 7: "g_waiters example_duplicate = [(Key 0x1234 1, 0)]" by (simp add: example_duplicate_def run_defs)
  show ?thesis
    using duplicate_key_proceeds [OF 1 2 3 4 5 6, where sys = Linux and timeout_ms = 1000
        and ttl_opt = "- 1"] 1 2 3 5 6 7
    by simp
qed

text \<open>
  The claim fails in a state the engine reaches (the sequence counter wrapped while the
  first probe waits): the second probe with the same key is sent and waits. With a
  library that builds the node first its \<^verbatim>\<open>fut.get()\<close> throws. With a library that
  looks the key up first its promise stays with the caller and nobody can resolve it:
  the probe times out, and its \<^verbatim>\<open>erase(k)\<close> removes the entry of the first probe and
  breaks that promise.
\<close>

theorem duplicate_key_counterexample:
  "reachable Linux example_duplicate \<and>
   map_of (g_waiters example_duplicate) (probe_key example_env example_duplicate) = Some 0 \<and>
   fst (ping_once_engine_issue Linux example_env ''8.8.8.8'' 1000 0 (- 1) example_duplicate) =
     Waiting (Key 0x1234 1) 1 \<and>
   g_waiters (snd (ping_once_engine_issue Linux example_env ''8.8.8.8'' 1000 0 (- 1)
                     example_duplicate)) = [(Key 0x1234 1, 0)] \<and>
   length (sent (snd (ping_once_engine_issue Linux example_env ''8.8.8.8'' 1000 0 (- 1)
                        example_duplicate))) = 2 \<and>
   fst (ping_once_engine Linux example_env ''8.8.8.8'' 1000 0 (- 1) id example_duplicate) =
     Some (Inl (future_error broken_promise)) \<and>
   fst (ping_once_engine Linux (example_env\<lparr>emplace_constructs := False\<rparr>) ''8.8.8.8'' 1000 0
          (- 1) id example_duplicate) =
     Some (Inr (PingProbeResult_init\<lparr>error_msg := ''Timeout''\<rparr>)) \<and>
   g_waiters (snd (ping_once_engine Linux (example_env\<lparr>emplace_constructs := False\<rparr>)
                     ''8.8.8.8'' 1000 0 (- 1) id example_duplicate)) = [] \<and>
   content (promises (snd (ping_once_engine Linux (example_env\<lparr>emplace_constructs := False\<rparr>)
                             ''8.8.8.8'' 1000 0 (- 1) id example_duplicate)) 0) =
     Exception broken_promise"
  by (simp add: reachable_example_duplicate) (simp add: example_duplicate_def run_defs)

section \<open>Failed probes\<close>

lemma umap_emplace_fresh: "map_of m k = None \<Longrightarrow> umap_emplace k v m = (k, v) # m"
  by (simp add: umap_emplace_def)

lemma probe_drained_linux:
  assumes "reachable Linux st" and "inet_pton env ip = Some dst"
    and "\<not> is_local_ipv4_addr env dst" and "g_sock st \<noteq> None" and "0 \<le> payload_size"
    and "sendto_ok env" and "map_of (g_waiters st) (probe_key env st) = None"
  shows "fst (ping_once_engine Linux env ip timeout_ms payload_size ttl_opt (shutdown_engine Linux) st)
           = Some (Inr (PingProbeResult_init\<lparr>rtt_ms := elapsed_ms env\<rparr>))"
proof -
  let ?issue = "ping_once_engine_issue Linux env ip timeout_ms payload_size ttl_opt st"
  have i: "?issue = (Waiting (probe_key env st) (next_ref st), snd ?issue)"
    using issue_sent [OF assms(2-6), of Linux timeout_ms ttl_opt] by simp
  have "reachable Linux (snd ?issue)" by (rule reachable_issue [OF assms(1)])
  then have ok: "table_ok (snd ?issue)" using reachable_inv by (simp add: engine_inv_def)
  have "(probe_key env st, next_ref st) \<in> set (g_waiters (snd ?issue))"
    by (simp add: issue_sent [OF assms(2-6)] umap_emplace_fresh [OF assms(7)])
  then have "content (promises (shutdown_engine Linux (snd ?issue)) (next_ref st)) =
               Value PingProbeResult_init"
    by (rule shutdown_linux_content [OF ok])
  then have "fst (ping_once_engine_await env (probe_key env st) (next_ref st)
                    (shutdown_engine Linux (snd ?issue))) =
               Inr (PingProbeResult_init\<lparr>rtt_ms := elapsed_ms env\<rparr>)"
    by (simp add: ping_once_engine_await_def)
  then show ?thesis
    by (subst ping_once_engine_def, subst i) simp
qed

text \<open>A positive \<^verbatim>\<open>timeout_ms\<close> gives the socket of the fast path a receive timeout; zero gives none.\<close>

lemma so_rcvtimeo_positive:
  assumes "0 < timeout_ms"
  shows "so_rcvtimeo env timeout_ms"
proof -
  have "timeout_ms = 1000 * (timeout_ms div 1000) + timeout_ms mod 1000" by simp
  then have "timeout_ms div 1000 \<noteq> 0 \<or> timeout_ms mod 1000 \<noteq> 0"
    using assms by linarith
  moreover have "0 \<le> timeout_ms div 1000" "0 \<le> timeout_ms mod 1000"
    using assms by simp_all
  ultimately show ?thesis
    using assms by (auto simp: so_rcvtimeo_def rcv_timeval_def)
qed

lemma so_rcvtimeo_zero: "\<not> so_rcvtimeo env 0"
  by (simp add: so_rcvtimeo_def rcv_timeval_def)

lemma local_recv_loop_outcome:
  "tmo \<Longrightarrow> \<exists>p. local_recv_loop tmo Quiet ident sq rtt evs probe = Some p \<and>
                 (success p \<or> error_msg p \<noteq> [])"
  by (induction tmo Quiet ident sq rtt evs probe rule: local_recv_loop.induct) auto

lemma local_probe_outcome:
  assumes "inet_pton env ip = Some dst" and "is_local_ipv4_addr env dst" and "0 \<le> payload_size"
    and "sys = Linux \<longrightarrow> 0 < timeout_ms \<and> local_recv_rest env = Quiet"
  shows "\<exists>p. fst (ping_once_engine sys env ip timeout_ms payload_size ttl_opt others st) =
               Some (Inr p) \<and> (success p \<or> error_msg p \<noteq> [])"
proof (cases sys)
  case Windows
  then show ?thesis
    using assms(1,2)
    by (cases "icmp_ping_local env")
      (auto simp: ping_once_engine_def ping_once_engine_issue_def local_ping_windows_def
        PingProbeResult_init_def Let_def)
next
  case Linux
  then have tmo: "so_rcvtimeo env timeout_ms" and quiet: "local_recv_rest env = Quiet"
    using assms(4) by (simp_all add: so_rcvtimeo_positive)
  obtain p where p: "local_recv_loop (so_rcvtimeo env timeout_ms) Quiet (ucast (pid env AND 0xFFFF))
                       (g_seq st) (elapsed_ms env) (local_recv env) PingProbeResult_init = Some p"
    and ok: "success p \<or> error_msg p \<noteq> []"
    using local_recv_loop_outcome [OF tmo] by blast
  show ?thesis
    using Linux assms(1-3) p ok quiet
    by (auto simp: ping_once_engine_def ping_once_engine_issue_def local_ping_linux_def
        build_packet_ok Let_def PingProbeResult_init_def)
qed

text \<open>
  C2 (a failed probe is a value), as the code has it. A probe whose destination does not
  parse, whose engine has no socket, whose \<^verbatim>\<open>sendto\<close> fails or whose wait ends with the
  state not ready returns normally, with \<open>success = False\<close> and the error message
  "Invalid IP", "Engine socket not available", "sendto failed" (Windows) or
  "sendto() failed" (Linux), "Timeout"; the last two for \<open>payload_size \<ge> 0\<close>. A
  probe with a fresh key that the shutdown of the Linux engine drains returns normally
  with \<open>success = False\<close> and an empty error message. A probe to a local address with
  \<open>payload_size \<ge> 0\<close> returns normally, and with an error message when it fails; on
  Linux for \<open>timeout_ms > 0\<close> and when the datagrams that its receive loop skips do not
  keep arriving without end. Of the rest of the public surface: \<^verbatim>\<open>init_engine\<close>
  returns normally on Linux, and on Windows when the listener thread can be started;
  \<^verbatim>\<open>shutdown_engine\<close> catches what the calls inside it throw and \<^verbatim>\<open>engine_available\<close>
  only reads a flag, so both return in every state: after \<^verbatim>\<open>shutdown_engine\<close> the
  engine is not available, has no socket and no waiter.
\<close>

theorem probe_failure_outcomes:
  "(inet_pton env ip = None \<longrightarrow>
      ping_once_engine sys env ip timeout_ms payload_size ttl_opt others st =
        (Some (Inr (PingProbeResult_init\<lparr>error_msg := ''Invalid IP''\<rparr>)), st)) \<and>
   (inet_pton env ip = Some dst \<and> \<not> is_local_ipv4_addr env dst \<and> g_sock st = None \<longrightarrow>
      ping_once_engine sys env ip timeout_ms payload_size ttl_opt others st =
        (Some (Inr (PingProbeResult_init\<lparr>error_msg := ''Engine socket not available''\<rparr>)), st)) \<and>
   (inet_pton env ip = Some dst \<and> \<not> is_local_ipv4_addr env dst \<and> g_sock st \<noteq> None \<and>
    0 \<le> payload_size \<and> \<not> sendto_ok env \<longrightarrow>
      fst (ping_once_engine sys env ip timeout_ms payload_size ttl_opt others st) =
        Some (Inr (PingProbeResult_init\<lparr>error_msg := sendto_failed sys\<rparr>))) \<and>
   (inet_pton env ip = Some dst \<and> \<not> is_local_ipv4_addr env dst \<and> g_sock st \<noteq> None \<and>
    0 \<le> payload_size \<and> sendto_ok env \<and>
    content (promises
              (others (snd (ping_once_engine_issue sys env ip timeout_ms payload_size ttl_opt st)))
              (next_ref st)) = NotReady \<longrightarrow>
      fst (ping_once_engine sys env ip timeout_ms payload_size ttl_opt others st) =
        Some (Inr (PingProbeResult_init\<lparr>error_msg := ''Timeout''\<rparr>))) \<and>
   (reachable Linux st \<and> inet_pton env ip = Some dst \<and> \<not> is_local_ipv4_addr env dst \<and>
    g_sock st \<noteq> None \<and> 0 \<le> payload_size \<and> sendto_ok env \<and>
    map_of (g_waiters st) (probe_key env st) = None \<longrightarrow>
      fst (ping_once_engine Linux env ip timeout_ms payload_size ttl_opt (shutdown_engine Linux) st) =
        Some (Inr (PingProbeResult_init\<lparr>rtt_ms := elapsed_ms env\<rparr>))) \<and>
   (inet_pton env ip = Some dst \<and> is_local_ipv4_addr env dst \<and> 0 \<le> payload_size \<and>
    (sys = Linux \<longrightarrow> 0 < timeout_ms \<and> local_recv_rest env = Quiet) \<longrightarrow>
      (\<exists>p. fst (ping_once_engine sys env ip timeout_ms payload_size ttl_opt others st) =
             Some (Inr p) \<and> (success p \<or> error_msg p \<noteq> []))) \<and>
   (\<exists>b. fst (init_engine Linux ie st) = Inr b) \<and>
   (thread_ok ie \<longrightarrow> (\<exists>b. fst (init_engine Windows ie st) = Inr b)) \<and>
   \<not> engine_available (shutdown_engine sys st) \<and>
   g_sock (shutdown_engine sys st) = None \<and>
   g_waiters (shutdown_engine sys st) = [] \<and>
   success (PingProbeResult_init\<lparr>error_msg := msg\<rparr>) = False \<and>
   success (PingProbeResult_init\<lparr>rtt_ms := rtt\<rparr>) = False \<and>
   error_msg (PingProbeResult_init\<lparr>rtt_ms := rtt\<rparr>) = [] \<and>
   sendto_failed sys \<noteq> []"
proof -
  have timeout: "fst (ping_once_engine sys env ip timeout_ms payload_size ttl_opt others st) =
        Some (Inr (PingProbeResult_init\<lparr>error_msg := ''Timeout''\<rparr>))"
    if "inet_pton env ip = Some dst" "\<not> is_local_ipv4_addr env dst" "g_sock st \<noteq> None"
      "0 \<le> payload_size" "sendto_ok env"
      "content (promises
              (others (snd (ping_once_engine_issue sys env ip timeout_ms payload_size ttl_opt st)))
              (next_ref st)) = NotReady"
  proof -
    let ?issue = "ping_once_engine_issue sys env ip timeout_ms payload_size ttl_opt st"
    have i: "?issue = (Waiting (probe_key env st) (next_ref st), snd ?issue)"
      using issue_sent [OF that(1-5), of sys timeout_ms ttl_opt] by simp
    show ?thesis
      by (subst ping_once_engine_def, subst i) (simp add: await_not_ready [OF that(6)])
  qed
  have invalid: "ping_once_engine sys env ip timeout_ms payload_size ttl_opt others st =
        (Some (Inr (PingProbeResult_init\<lparr>error_msg := ''Invalid IP''\<rparr>)), st)"
    if "inet_pton env ip = None"
    by (simp add: ping_once_engine_def issue_invalid_ip [OF that])
  have nosock: "ping_once_engine sys env ip timeout_ms payload_size ttl_opt others st =
        (Some (Inr (PingProbeResult_init\<lparr>error_msg := ''Engine socket not available''\<rparr>)), st)"
    if "inet_pton env ip = Some dst" "\<not> is_local_ipv4_addr env dst" "g_sock st = None"
    by (simp add: ping_once_engine_def issue_no_socket [OF that])
  have sendfail: "fst (ping_once_engine sys env ip timeout_ms payload_size ttl_opt others st) =
        Some (Inr (PingProbeResult_init\<lparr>error_msg := sendto_failed sys\<rparr>))"
    if "inet_pton env ip = Some dst" "\<not> is_local_ipv4_addr env dst" "g_sock st \<noteq> None"
      "0 \<le> payload_size" "\<not> sendto_ok env"
    by (simp add: ping_once_engine_def issue_send_failed [OF that])
  have start_linux: "\<exists>b. fst (init_engine Linux ie st) = Inr b"
    by (auto simp: init_engine_def split: option.splits)
  have start_windows: "\<exists>b. fst (init_engine Windows ie st) = Inr b" if "thread_ok ie"
    using that by (auto simp: init_engine_def split: option.splits)
  have stop: "\<not> engine_available (shutdown_engine sys st) \<and>
      g_sock (shutdown_engine sys st) = None \<and> g_waiters (shutdown_engine sys st) = []"
    by (simp add: shutdown_defs engine_available_def)
  have strings: "success (PingProbeResult_init\<lparr>error_msg := msg\<rparr>) = False \<and>
      success (PingProbeResult_init\<lparr>rtt_ms := rtt\<rparr>) = False \<and>
      error_msg (PingProbeResult_init\<lparr>rtt_ms := rtt\<rparr>) = [] \<and> sendto_failed sys \<noteq> []"
    by (cases sys) (simp_all add: PingProbeResult_init_def sendto_failed_def)
  show ?thesis
    using invalid nosock sendfail timeout probe_drained_linux local_probe_outcome
      start_linux start_windows stop strings
    by blast
qed

text \<open>
  The claim fails. A probe drained by the shutdown of the Linux engine has no error
  message. A \<open>payload_size\<close> below \<open>-16\<close> (below \<open>-8\<close> on Windows), which the C
  interface passes on unchecked, makes the constructor of the vector throw
  \<^verbatim>\<open>std::length_error\<close> out of \<^verbatim>\<open>ping_once_engine\<close>. On Windows the probe drained by the
  shutdown throws \<^verbatim>\<open>std::future_error\<close>, and \<^verbatim>\<open>init_engine\<close> throws
  \<^verbatim>\<open>std::system_error\<close> when the listener thread cannot be started. A probe that
  found its key in the table when it registered, with a library whose \<^verbatim>\<open>emplace\<close>
  builds the node first, throws \<^verbatim>\<open>std::future_error\<close> on Linux too, drained or not. A
  \<open>payload_size\<close> of \<open>-1\<close> gives a vector too short for the timestamp written into
  it. On Linux a probe to a local address that nothing answers never returns with
  \<open>timeout_ms = 0\<close>, nor with a negative \<open>timeout_ms\<close> that the system refuses, nor
  (whatever the timeout) while datagrams that its loop skips keep arriving.
\<close>

theorem probe_failure_outcomes_counterexample:
  "fst (ping_once_engine Linux example_env ''8.8.8.8'' 1000 0 (- 1) (shutdown_engine Linux)
          (example_engine Linux)) =
     Some (Inr \<lparr>success = False, rtt_ms = 7, ttl = - 1, if_name = [], error_msg = []\<rparr>) \<and>
   fst (ping_once_engine Linux example_env ''8.8.8.8'' 1000 (- 17) (- 1) id (example_engine Linux)) =
     Some (Inl length_error) \<and>
   fst (ping_once_engine Windows example_env ''8.8.8.8'' 1000 (- 9) (- 1) id (example_engine Windows)) =
     Some (Inl length_error) \<and>
   fst (ping_once_engine Windows example_env ''8.8.8.8'' 1000 0 (- 1) (shutdown_engine Windows)
          (example_engine Windows)) =
     Some (Inl (future_error broken_promise)) \<and>
   fst (init_engine Windows (example_init\<lparr>thread_ok := False\<rparr>) engine_initial) =
     Inl system_error \<and>
   fst (ping_once_engine Linux example_env ''8.8.8.8'' 1000 (- 1) (- 1) id (example_engine Linux)) =
     Some (Inl out_of_bounds_write) \<and>
   fst (ping_once_engine Linux (example_env\<lparr>local_recv := []\<rparr>) ''127.0.0.1'' 0 0 (- 1) id
          (example_engine Linux)) = None \<and>
   rcv_timeval (- 500) = (0, - 500000) \<and>
   fst (ping_once_engine Linux (example_env\<lparr>local_recv := []\<rparr>) ''127.0.0.1'' (- 500) 0 (- 1) id
          (example_engine Linux)) = None \<and>
   fst (ping_once_engine Linux (example_env\<lparr>local_recv := [], local_recv_rest := Endless\<rparr>)
          ''127.0.0.1'' 1000 0 (- 1) id (example_engine Linux)) = None \<and>
   reachable Linux example_duplicate \<and>
   fst (ping_once_engine Linux example_env ''8.8.8.8'' 1000 0 (- 1) (shutdown_engine Linux)
          example_duplicate) =
     Some (Inl (future_error broken_promise)) \<and>
   fst (ping_once_engine Linux example_env ''8.8.8.8'' 1000 0 (- 1) id example_duplicate) =
     Some (Inl (future_error broken_promise))"
  by (simp add: reachable_example_duplicate) (simp add: example_duplicate_def run_defs)

theorem probe_failure_outcomes_witness:
  "inet_pton example_env ''999.999.999.999'' = None \<and>
   fst (ping_once_engine Linux example_env ''999.999.999.999'' 100 0 (- 1) id (example_engine Linux)) =
     Some (Inr (PingProbeResult_init\<lparr>error_msg := ''Invalid IP''\<rparr>)) \<and>
   inet_pton example_env ''8.8.8.8'' = Some 0x08080808 \<and>
   \<not> is_local_ipv4_addr example_env 0x08080808 \<and> g_sock engine_initial = None \<and>
   fst (ping_once_engine Linux example_env ''8.8.8.8'' 100 0 (- 1) id engine_initial) =
     Some (Inr (PingProbeResult_init\<lparr>error_msg := ''Engine socket not available''\<rparr>)) \<and>
   g_sock (example_engine Linux) \<noteq> None \<and> (0::int) \<le> 0 \<and>
   \<not> sendto_ok (example_env\<lparr>sendto_ok := False\<rparr>) \<and>
   fst (ping_once_engine Linux (example_env\<lparr>sendto_ok := False\<rparr>) ''8.8.8.8'' 100 0 (- 1) id
          (example_engine Linux)) =
     Some (Inr (PingProbeResult_init\<lparr>error_msg := ''sendto() failed''\<rparr>)) \<and>
   sendto_ok example_env \<and>
   content (promises
             (id (snd (ping_once_engine_issue Linux example_env ''8.8.8.8'' 100 0 (- 1)
                         (example_engine Linux))))
             (next_ref (example_engine Linux))) = NotReady \<and>
   fst (ping_once_engine Linux example_env ''8.8.8.8'' 100 0 (- 1) id (example_engine Linux)) =
     Some (Inr (PingProbeResult_init\<lparr>error_msg := ''Timeout''\<rparr>)) \<and>
   reachable Linux (example_engine Linux) \<and>
   map_of (g_waiters (example_engine Linux)) (probe_key example_env (example_engine Linux)) = None \<and>
   fst (ping_once_engine Linux example_env ''8.8.8.8'' 100 0 (- 1) (shutdown_engine Linux)
          (example_engine Linux)) =
     Some (Inr (PingProbeResult_init\<lparr>rtt_ms := 7\<rparr>)) \<and>
   inet_pton (example_env\<lparr>icmp_ping_local := None\<rparr>) ''127.0.0.1'' = Some 0x7F000001 \<and>
   is_local_ipv4_addr (example_env\<lparr>icmp_ping_local := None\<rparr>) 0x7F000001 \<and>
   fst (ping_once_engine Windows (example_env\<lparr>icmp_ping_local := None\<rparr>) ''127.0.0.1'' 100 0
          (- 1) id (example_engine Windows)) =
     Some (Inr (PingProbeResult_init\<lparr>error_msg := ''Local ICMP failed''\<rparr>)) \<and>
   inet_pton (example_env\<lparr>local_recv := []\<rparr>) ''127.0.0.1'' = Some 0x7F000001 \<and>
   is_local_ipv4_addr (example_env\<lparr>local_recv := []\<rparr>) 0x7F000001 \<and> (0::int) < 100 \<and>
   local_recv_rest (example_env\<lparr>local_recv := []\<rparr>) = Quiet \<and>
   fst (ping_once_engine Linux (example_env\<lparr>local_recv := []\<rparr>) ''127.0.0.1'' 100 0 (- 1) id
          (example_engine Linux)) =
     Some (Inr (PingProbeResult_init\<lparr>error_msg := ''Timeout''\<rparr>)) \<and>
   thread_ok example_init \<and>
   fst (init_engine Windows example_init engine_initial) = Inr True \<and>
   fst (init_engine Linux (example_init\<lparr>thread_ok := False\<rparr>) engine_initial) = Inr False \<and>
   \<not> engine_available (shutdown_engine Windows (example_pending Windows))"
proof -
  let ?env = example_env and ?st = "example_engine Linux"
  let ?envf = "example_env\<lparr>sendto_ok := False\<rparr>"
  have h1: "inet_pton ?env ''999.999.999.999'' = None" by (simp add: example_env_def)
  have h2: "inet_pton ?env ''8.8.8.8'' = Some 0x08080808" by (simp add: example_env_def)
  have h2f: "inet_pton ?envf ''8.8.8.8'' = Some 0x08080808" by (simp add: example_env_def)
  have h3: "\<not> is_local_ipv4_addr ?env 0x08080808" by (simp add: example_env_def)
  have h3f: "\<not> is_local_ipv4_addr ?envf 0x08080808" by (simp add: example_env_def)
  have h4: "g_sock engine_initial = None" by (simp add: engine_initial_def)
  have h5: "g_sock ?st \<noteq> None" by (simp add: run_defs)
  have h6: "(0::int) \<le> 0" by simp
  have h7: "\<not> sendto_ok ?envf" by simp
  have h8: "sendto_ok ?env" by (simp add: example_env_def)
  have h9: "content (promises
             (id (snd (ping_once_engine_issue Linux ?env ''8.8.8.8'' 100 0 (- 1) ?st)))
             (next_ref ?st)) = NotReady"
    by (simp add: run_defs)
  have h10: "reachable Linux ?st" by (rule reachable_example_engine)
  have h11: "map_of (g_waiters ?st) (probe_key ?env ?st) = None" by (simp add: run_defs)
  have c1: "fst (ping_once_engine Linux ?env ''999.999.999.999'' 100 0 (- 1) id ?st) =
     Some (Inr (PingProbeResult_init\<lparr>error_msg := ''Invalid IP''\<rparr>))"
    using probe_failure_outcomes [where env = ?env and ip = "''999.999.999.999''" and sys = Linux
        and timeout_ms = 100 and payload_size = 0 and ttl_opt = "- 1" and others = id and st = ?st]
      h1 by simp
  have c2: "fst (ping_once_engine Linux ?env ''8.8.8.8'' 100 0 (- 1) id engine_initial) =
     Some (Inr (PingProbeResult_init\<lparr>error_msg := ''Engine socket not available''\<rparr>))"
    using probe_failure_outcomes [where env = ?env and ip = "''8.8.8.8''" and sys = Linux
        and timeout_ms = 100 and payload_size = 0 and ttl_opt = "- 1" and others = id
        and st = engine_initial and dst = "0x08080808"]
      h2 h3 h4 by simp
  have c3: "fst (ping_once_engine Linux ?envf ''8.8.8.8'' 100 0 (- 1) id ?st) =
     Some (Inr (PingProbeResult_init\<lparr>error_msg := ''sendto() failed''\<rparr>))"
    using probe_failure_outcomes [where env = ?envf and ip = "''8.8.8.8''" and sys = Linux
        and timeout_ms = 100 and payload_size = 0 and ttl_opt = "- 1" and others = id
        and st = ?st and dst = "0x08080808"]
      h2f h3f h5 h7 by (simp add: sendto_failed_def)
  have c4: "fst (ping_once_engine Linux ?env ''8.8.8.8'' 100 0 (- 1) id ?st) =
     Some (Inr (PingProbeResult_init\<lparr>error_msg := ''Timeout''\<rparr>))"
    using probe_failure_outcomes [where env = ?env and ip = "''8.8.8.8''" and sys = Linux
        and timeout_ms = 100 and payload_size = 0 and ttl_opt = "- 1" and others = id
        and st = ?st and dst = "0x08080808"]
      h2 h3 h5 h8 h9 by simp
  have c5: "fst (ping_once_engine Linux ?env ''8.8.8.8'' 100 0 (- 1) (shutdown_engine Linux) ?st) =
     Some (Inr (PingProbeResult_init\<lparr>rtt_ms := 7\<rparr>))"
    using probe_failure_outcomes [where env = ?env and ip = "''8.8.8.8''" and sys = Linux
        and timeout_ms = 100 and payload_size = 0 and ttl_opt = "- 1"
        and st = ?st and dst = "0x08080808"]
      h2 h3 h5 h8 h10 h11 by (simp add: example_env_def)
  let ?envl = "example_env\<lparr>icmp_ping_local := None\<rparr>"
  have h12: "inet_pton ?envl ''127.0.0.1'' = Some 0x7F000001" by (simp add: example_env_def)
  have h13: "is_local_ipv4_addr ?envl 0x7F000001" by (simp add: example_env_def)
  have "\<exists>p. fst (ping_once_engine Windows ?envl ''127.0.0.1'' 100 0 (- 1) id
                      (example_engine Windows)) = Some (Inr p) \<and> (success p \<or> error_msg p \<noteq> [])"
    using probe_failure_outcomes [where env = ?envl and ip = "''127.0.0.1''" and sys = Windows
        and timeout_ms = 100 and payload_size = 0 and ttl_opt = "- 1" and others = id
        and st = "example_engine Windows" and dst = "0x7F000001"]
      h12 h13 by simp
  then have c6: "fst (ping_once_engine Windows ?envl ''127.0.0.1'' 100 0 (- 1) id
                      (example_engine Windows)) =
     Some (Inr (PingProbeResult_init\<lparr>error_msg := ''Local ICMP failed''\<rparr>))"
    by (simp add: run_defs)
  let ?envq = "example_env\<lparr>local_recv := []\<rparr>"
  have h14: "inet_pton ?envq ''127.0.0.1'' = Some 0x7F000001" by (simp add: example_env_def)
  have h15: "is_local_ipv4_addr ?envq 0x7F000001" by (simp add: example_env_def)
  have h16: "(0::int) < 100" by simp
  have h16q: "local_recv_rest ?envq = Quiet" by (simp add: example_env_def)
  have "\<exists>p. fst (ping_once_engine Linux ?envq ''127.0.0.1'' 100 0 (- 1) id ?st) = Some (Inr p) \<and>
             (success p \<or> error_msg p \<noteq> [])"
    using probe_failure_outcomes [where env = ?envq and ip = "''127.0.0.1''" and sys = Linux
        and timeout_ms = 100 and payload_size = 0 and ttl_opt = "- 1" and others = id
        and st = ?st and dst = "0x7F000001"]
      h14 h15 h16 h16q by simp
  then have c7: "fst (ping_once_engine Linux ?envq ''127.0.0.1'' 100 0 (- 1) id ?st) =
     Some (Inr (PingProbeResult_init\<lparr>error_msg := ''Timeout''\<rparr>))"
    by (simp add: run_defs)
  have h17: "thread_ok example_init" by (simp add: example_init_def)
  have "\<exists>b. fst (init_engine Windows example_init engine_initial) = Inr b"
    using probe_failure_outcomes [where ie = example_init and st = engine_initial] h17 by simp
  then have c8: "fst (init_engine Windows example_init engine_initial) = Inr True"
    by (simp add: run_defs)
  have "\<exists>b. fst (init_engine Linux (example_init\<lparr>thread_ok := False\<rparr>) engine_initial) = Inr b"
    using probe_failure_outcomes [where ie = "example_init\<lparr>thread_ok := False\<rparr>"
        and st = engine_initial] by simp
  then have c9: "fst (init_engine Linux (example_init\<lparr>thread_ok := False\<rparr>) engine_initial) =
     Inr False"
    by (simp add: run_defs)
  have c10: "\<not> engine_available (shutdown_engine Windows (example_pending Windows))"
    using probe_failure_outcomes [where sys = Windows and st = "example_pending Windows"] by simp
  show ?thesis
    using h1 h2 h3 h4 h5 h7 h8 h9 h10 h11 h12 h13 h14 h15 h16q h17 c1 c2 c3 c4 c5 c6 c7 c8 c9 c10
    by simp
qed

end
